theory Spec2Isabelle
  imports Main
begin

text \<open>
  The recommendation code of ptv-check: \<^verbatim>\<open>findNextBus\<close>, \<^verbatim>\<open>getBusDepartures\<close> and the
  handler of src/api/departures.js, and \<^verbatim>\<open>findBus\<close> and \<^verbatim>\<open>handleAPI\<close> of src/server.mjs,
  as functions of the five response bodies fetched from the timetable service and of the
  readings of the wall clock. Request signing, the fetches themselves and the HTTP plumbing
  are not modelled; an exception is a value of type \<open>error\<close>.
\<close>

section \<open>JavaScript values used by the recommendation code\<close>

text \<open>
  A \<^verbatim>\<open>Date\<close> holds a time value: a whole number of milliseconds since the epoch, or NaN
  (an "Invalid Date"). The same representation serves for the numbers the code computes
  with (\<^verbatim>\<open>getTime()\<close>, differences of dates): \<open>None\<close> is NaN.
\<close>

type_synonym number = "int option"
type_synonym date = "int option"

text \<open>
  The timestamp fields of a departure record as they come out of the JSON payload.
  A non-empty string is represented by what \<^verbatim>\<open>Date.parse\<close> makes of it: \<open>Utc t\<close> is a
  string that parses to the time value \<open>t\<close>, \<open>Unparseable\<close> one that parses to NaN.
\<close>

datatype json_time = Undefined | Null | EmptyString | Unparseable | Utc int

text \<open>ECMAScript \<^verbatim>\<open>TimeClip\<close>: time values beyond 8.64e15 ms from the epoch are NaN.\<close>

definition TimeClip :: "int \<Rightarrow> date" where
  "TimeClip t = (if \<bar>t\<bar> > 8640000000000000 then None else Some t)"

text \<open>\<^verbatim>\<open>new Date(number)\<close>.\<close>

definition new_Date_value :: "number \<Rightarrow> date" where
  "new_Date_value v = (case v of None \<Rightarrow> None | Some t \<Rightarrow> TimeClip t)"

text \<open>
  \<^verbatim>\<open>new Date(v)\<close> for a field of the payload: \<^verbatim>\<open>undefined\<close> gives NaN, \<^verbatim>\<open>null\<close>
  converts to the number 0, a string is parsed.
\<close>

fun new_Date :: "json_time \<Rightarrow> date" where
  "new_Date Undefined = None"
| "new_Date Null = Some 0"
| "new_Date EmptyString = None"
| "new_Date Unparseable = None"
| "new_Date (Utc t) = TimeClip t"

text \<open>\<^verbatim>\<open>a || b\<close> on such fields: only a non-empty string is truthy.\<close>

fun truthy :: "json_time \<Rightarrow> bool" where
  "truthy (Utc t) = True"
| "truthy Unparseable = True"
| "truthy v = False"

definition js_or :: "json_time \<Rightarrow> json_time \<Rightarrow> json_time" where
  "js_or a b = (if truthy a then a else b)"

definition getTime :: "date \<Rightarrow> number" where
  "getTime d = d"

text \<open>\<^verbatim>\<open>x + k\<close> for a number \<open>x\<close> and an integer constant \<open>k\<close>.\<close>

definition num_plus :: "number \<Rightarrow> int \<Rightarrow> number" where
  "num_plus x k = (case x of None \<Rightarrow> None | Some t \<Rightarrow> Some (t + k))"

text \<open>\<^verbatim>\<open>a - b\<close> and \<^verbatim>\<open>a >= b\<close> on dates: both convert to the time values; NaN compares false.\<close>

definition date_minus :: "date \<Rightarrow> date \<Rightarrow> number" where
  "date_minus a b = (case (a, b) of (Some x, Some y) \<Rightarrow> Some (x - y) | _ \<Rightarrow> None)"

definition date_ge :: "date \<Rightarrow> date \<Rightarrow> bool" where
  "date_ge a b = (case (a, b) of (Some x, Some y) \<Rightarrow> y \<le> x | _ \<Rightarrow> False)"

text \<open>
  \<^verbatim>\<open>Array.prototype.sort(comparefn)\<close>. The comparator's result is a number, and NaN counts
  as 0. The sort is stable; where the comparator is a consistent ordering of the elements
  the result is therefore determined, and it is the one computed here by insertion from the
  right. (For an inconsistent comparator ECMAScript leaves the order to the implementation.)
\<close>

fun insert_sorted :: "('a \<Rightarrow> 'a \<Rightarrow> number) \<Rightarrow> 'a \<Rightarrow> 'a list \<Rightarrow> 'a list" where
  "insert_sorted comparefn x [] = [x]"
| "insert_sorted comparefn x (y # ys) =
     (if (case comparefn x y of None \<Rightarrow> 0 | Some v \<Rightarrow> v) \<le> 0 then x # y # ys
      else y # insert_sorted comparefn x ys)"

definition Array_sort :: "('a \<Rightarrow> 'a \<Rightarrow> number) \<Rightarrow> 'a list \<Rightarrow> 'a list" where
  "Array_sort comparefn xs = foldr (insert_sorted comparefn) xs []"

text \<open>\<^verbatim>\<open>xs[0]\<close>: the first element, or \<^verbatim>\<open>undefined\<close>.\<close>

definition first :: "'a list \<Rightarrow> 'a option" where
  "first xs = (case xs of [] \<Rightarrow> None | x # _ \<Rightarrow> Some x)"

section \<open>Departure records\<close>

record raw_departure =
  route_id :: int
  direction_id :: "int option"
  scheduled_departure_utc :: json_time
  estimated_departure_utc :: json_time

text \<open>The enriched copies \<^verbatim>\<open>{...dep, field: value}\<close> that the code builds.\<close>

record routed_departure = raw_departure +
  routeNumber :: string

record suitable_bus = routed_departure +
  departureTime :: date

record route_info =
  route_number :: "string option"
  route_short_name :: "string option"

text \<open>
  A payload as the fetch layer returns it: the \<^verbatim>\<open>departures\<close> array and the \<^verbatim>\<open>routes\<close>
  table keyed by route id; either property may be absent.
\<close>

record payload =
  departures :: "raw_departure list option"
  routes :: "(int \<rightharpoonup> route_info) option"

datatype error = TypeError | RangeError

text \<open>\<^verbatim>\<open>String(n)\<close> for a route number.\<close>

definition digit :: "nat \<Rightarrow> char" where
  "digit n = ''0123456789'' ! n"

function String_nat :: "nat \<Rightarrow> string" where
  "String_nat n = (if n < 10 then [digit n] else String_nat (n div 10) @ [digit (n mod 10)])"
  by pat_completeness auto
termination
  by (relation "measure id") auto

declare String_nat.simps [simp del]

text \<open>\<^verbatim>\<open>routeData?.[d.route_id]?.route_number\<close>\<close>

definition route_number_of :: "(int \<rightharpoonup> route_info) option \<Rightarrow> int \<Rightarrow> string option" where
  "route_number_of routeData rid =
     Option.bind (Option.bind routeData (\<lambda>table. table rid)) route_number"

section \<open>src/api/departures.js: findNextBus\<close>

text \<open>
  The transfer time is a whole number of minutes (the handler passes \<^verbatim>\<open>MIN_TRANSFER_TIME\<close>).
  The body does not use the parameter \<^verbatim>\<open>routes\<close>. The result \<open>None\<close> is \<^verbatim>\<open>null\<close>.
\<close>

definition findNextBus :: "routed_departure list \<Rightarrow> date \<Rightarrow> string list \<Rightarrow> nat \<Rightarrow> suitable_bus option" where
  "findNextBus busDepartures trainArrival routes' minTransferMins =
     (let minDepartureTime =
            new_Date_value (num_plus (getTime trainArrival) (int minTransferMins * 60 * 1000));
          suitableBuses =
            Array_sort (\<lambda>a b. date_minus (departureTime a) (departureTime b))
              (filter (\<lambda>dep. date_ge (departureTime dep) minDepartureTime)
                 (map (\<lambda>dep. routed_departure.extend dep
                          \<lparr>departureTime =
                             new_Date (js_or (estimated_departure_utc dep)
                                             (scheduled_departure_utc dep))\<rparr>)
                    busDepartures))
      in first suitableBuses)"

section \<open>src/server.mjs: findBus\<close>

text \<open>
  \<^verbatim>\<open>findBus\<close> is local to \<^verbatim>\<open>handleAPI\<close>; \<^verbatim>\<open>deps.departures.filter\<close> throws when the payload
  has no departures list. The result \<open>Inr None\<close> is \<^verbatim>\<open>undefined\<close>.
\<close>

record timed_departure = raw_departure +
  time :: date
  route :: "string option"

definition MIN_TRANSFER :: nat where
  "MIN_TRANSFER = 3"

definition findBus ::
  "payload \<Rightarrow> nat list \<Rightarrow> date \<Rightarrow> (int \<rightharpoonup> route_info) option \<Rightarrow> error + timed_departure option"
where
  "findBus deps routes' trainArr routeData =
     (let minTime = new_Date_value (num_plus (getTime trainArr) (int MIN_TRANSFER * 60000))
      in case departures deps of
           None \<Rightarrow> Inl TypeError
         | Some ds \<Rightarrow>
             (let filtered =
                    Array_sort (\<lambda>a b. date_minus (time a) (time b))
                      (filter (\<lambda>d. date_ge (time d) minTime)
                         (map (\<lambda>d. raw_departure.extend d
                                  \<lparr>time = new_Date (js_or (estimated_departure_utc d)
                                                          (scheduled_departure_utc d)),
                                   route = route_number_of routeData (route_id d)\<rparr>)
                            (filter (\<lambda>d. list_ex (\<lambda>r. route_number_of routeData (route_id d)
                                                         = Some (String_nat r)) routes')
                               ds)))
              in Inr (first filtered)))"

section \<open>Itineraries and responses\<close>

text \<open>
  \<^verbatim>\<open>toISOString()\<close> writes a valid date as text with millisecond precision and raises a
  RangeError on an invalid one. The text and the time value determine each other, so an
  ISO string is represented by its time value.
\<close>

type_synonym iso_string = int

definition toISOString :: "date \<Rightarrow> error + iso_string" where
  "toISOString d = (case d of None \<Rightarrow> Inl RangeError | Some t \<Rightarrow> Inr t)"

record bus_leg =
  route :: string
  departure :: iso_string
  travelTime :: nat

record itinerary =
  station :: string
  trainArrival :: iso_string
  bus :: bus_leg
  arrivalAtMonash :: iso_string
  totalMinutes :: int

record next_train =
  atMountWaverley :: iso_string
  atSyndal :: iso_string
  atGlenWaverley :: iso_string

record result =
  timestamp :: iso_string
  nextTrain :: next_train
  recommendation :: "itinerary option"
  allOptions :: "itinerary list"

text \<open>
  What the handler sends: status 500 from the \<^verbatim>\<open>catch\<close> block, status 200 with the
  "no upcoming trains" error and a timestamp, or status 200 with the recommendation.
\<close>

datatype response = Failed error | NoTrains iso_string | Recommendation result

text \<open>Sequencing of statements that may throw.\<close>

definition and_then :: "error + 'a \<Rightarrow> ('a \<Rightarrow> error + 'b) \<Rightarrow> error + 'b" where
  "and_then r f = (case r of Inl e \<Rightarrow> Inl e | Inr v \<Rightarrow> f v)"

text \<open>\<^verbatim>\<open>payload.departures\<close> where an array method is then called on it.\<close>

definition departures_array :: "payload \<Rightarrow> error + raw_departure list" where
  "departures_array p = (case departures p of None \<Rightarrow> Inl TypeError | Some ds \<Rightarrow> Inr ds)"

section \<open>Configuration tables\<close>

datatype station_key = mountWaverley | syndal | glenWaverley

text \<open>Only the keys 733, 703, 737 and 742 are ever looked up.\<close>

definition BUS_TRAVEL_TIMES :: "nat \<Rightarrow> nat" where
  "BUS_TRAVEL_TIMES r =
     (if r = 733 then 17 else if r = 703 then 13 else if r = 737 then 15 else 12)"

text \<open>In src/server.mjs the same table is named \<^verbatim>\<open>TRAIN_TRAVEL\<close>.\<close>

fun TRAIN_TRAVEL_FROM_MT_WAVERLEY :: "station_key \<Rightarrow> nat" where
  "TRAIN_TRAVEL_FROM_MT_WAVERLEY mountWaverley = 0"
| "TRAIN_TRAVEL_FROM_MT_WAVERLEY syndal = 3"
| "TRAIN_TRAVEL_FROM_MT_WAVERLEY glenWaverley = 6"

definition MIN_TRANSFER_TIME :: nat where
  "MIN_TRANSFER_TIME = 3"

section \<open>src/api/departures.js: getBusDepartures and handler\<close>

text \<open>
  The part of \<^verbatim>\<open>getBusDepartures\<close> after the fetch: \<open>data\<close> is the parsed response body.
\<close>

definition getBusDepartures :: "nat list \<Rightarrow> payload \<Rightarrow> error + payload" where
  "getBusDepartures routeIds data =
     (let routeNumbers = map String_nat routeIds
      in and_then (departures_array data) (\<lambda>ds.
           Inr (data\<lparr>departures := Some
             (filter (\<lambda>dep.
                 case Option.bind (routes data) (\<lambda>table. table (route_id dep)) of
                   None \<Rightarrow> False
                 | Some r \<Rightarrow> list_ex (\<lambda>num. route_number r = Some num
                                            \<or> route_short_name r = Some num) routeNumbers)
               ds)\<rparr>)))"

record train = raw_departure +
  arrivalTime :: date

text \<open>
  The sorted list of outbound trains; both files compute it with the same expression
  (\<^verbatim>\<open>outbound\<close> in src/server.mjs).
\<close>

definition outboundTrains :: "payload \<Rightarrow> error + train list" where
  "outboundTrains mtWaverleyTrains =
     and_then (departures_array mtWaverleyTrains) (\<lambda>ds.
       Inr (Array_sort (\<lambda>a b. date_minus (arrivalTime a) (arrivalTime b))
              (map (\<lambda>dep. raw_departure.extend dep
                       \<lparr>arrivalTime =
                          new_Date (js_or (estimated_departure_utc dep)
                                          (scheduled_departure_utc dep))\<rparr>)
                 (filter (\<lambda>dep. direction_id dep = Some 6) ds))))"

fun trainArrivals :: "train \<Rightarrow> station_key \<Rightarrow> date" where
  "trainArrivals nextTrain' mountWaverley = arrivalTime nextTrain'"
| "trainArrivals nextTrain' syndal =
     new_Date_value (num_plus (getTime (arrivalTime nextTrain'))
                       (int (TRAIN_TRAVEL_FROM_MT_WAVERLEY syndal) * 60 * 1000))"
| "trainArrivals nextTrain' glenWaverley =
     new_Date_value (num_plus (getTime (arrivalTime nextTrain'))
                       (int (TRAIN_TRAVEL_FROM_MT_WAVERLEY glenWaverley) * 60 * 1000))"

text \<open>
  \<^verbatim>\<open>Math.round(d / 60000)\<close> for a whole number of milliseconds \<open>d\<close>: the nearest whole
  minute, halves upwards (computed on the exact quotient).
\<close>

definition round_minutes :: "int \<Rightarrow> int" where
  "round_minutes d = (d + 30000) div 60000"

text \<open>
  The block \<^verbatim>\<open>if (bus) { ...; options.push({...}) }\<close>, which both files repeat for each
  station and route; \<open>busTime\<close> is the matched departure's date, if one was matched. Each
  \<^verbatim>\<open>new Date()\<close> reads the wall clock: \<open>clock i\<close> is the reading taken when \<open>i\<close>
  itineraries have been pushed.
\<close>

definition pushOption ::
  "(nat \<Rightarrow> int) \<Rightarrow> string \<Rightarrow> date \<Rightarrow> string \<Rightarrow> nat \<Rightarrow> date option \<Rightarrow> itinerary list
     \<Rightarrow> error + itinerary list"
where
  "pushOption clock stationName trainArr routeNum minutes matched options =
     (case matched of
        None \<Rightarrow> Inr options
      | Some busTime \<Rightarrow>
          (let arrival = new_Date_value (num_plus (getTime busTime) (int minutes * 60 * 1000))
           in and_then (toISOString trainArr) (\<lambda>trainArrivalText.
              and_then (toISOString busTime) (\<lambda>departureText.
              and_then (toISOString arrival) (\<lambda>arrivalText.
                Inr (options @
                  [\<lparr>station = stationName,
                    trainArrival = trainArrivalText,
                    bus = \<lparr>route = routeNum, departure = departureText, travelTime = minutes\<rparr>,
                    arrivalAtMonash = arrivalText,
                    totalMinutes =
                      round_minutes (arrivalText - clock (length options))\<rparr>]))))))"

text \<open>
  The end of both handlers: sort by arrival at Monash, take the head as the recommendation
  and build the response body.
\<close>

definition respond :: "(nat \<Rightarrow> int) \<Rightarrow> (station_key \<Rightarrow> date) \<Rightarrow> itinerary list \<Rightarrow> error + result" where
  "respond clock arrivals options =
     (let sorted_options =
            Array_sort (\<lambda>a b. date_minus (new_Date (Utc (arrivalAtMonash a)))
                                       (new_Date (Utc (arrivalAtMonash b)))) options
      in and_then (toISOString (arrivals mountWaverley)) (\<lambda>mw.
         and_then (toISOString (arrivals syndal)) (\<lambda>sy.
         and_then (toISOString (arrivals glenWaverley)) (\<lambda>gw.
           Inr \<lparr>timestamp = clock (length options),
                nextTrain = \<lparr>atMountWaverley = mw, atSyndal = sy, atGlenWaverley = gw\<rparr>,
                recommendation = first sorted_options,
                allOptions = sorted_options\<rparr>))))"

text \<open>\<^verbatim>\<open>payload.routes?.[dep.route_id]?.route_number || fallback\<close> added to each departure.\<close>

definition withRouteNumber :: "payload \<Rightarrow> string \<Rightarrow> raw_departure list \<Rightarrow> routed_departure list" where
  "withRouteNumber p fallback ds =
     map (\<lambda>dep. raw_departure.extend dep
            \<lparr>routeNumber =
               (case route_number_of (routes p) (route_id dep) of
                  None \<Rightarrow> fallback
                | Some s \<Rightarrow> if s = [] then fallback else s)\<rparr>) ds"

text \<open>The loop \<^verbatim>\<open>for (const routeNum of ['742', '737'])\<close>.\<close>

fun glenWaverleyLoop ::
  "(nat \<Rightarrow> int) \<Rightarrow> routed_departure list \<Rightarrow> date \<Rightarrow> string list \<Rightarrow> itinerary list
     \<Rightarrow> error + itinerary list"
where
  "glenWaverleyLoop clock glenWaverleyBusList trainArr [] options = Inr options"
| "glenWaverleyLoop clock glenWaverleyBusList trainArr (routeNum # rest) options =
     (let routeBuses = filter (\<lambda>b. routeNumber b = routeNum) glenWaverleyBusList;
          found = findNextBus routeBuses trainArr [routeNum] MIN_TRANSFER_TIME;
          minutes = (if routeNum = ''742'' then BUS_TRAVEL_TIMES 742 else BUS_TRAVEL_TIMES 737)
      in and_then (pushOption clock ''Glen Waverley'' trainArr routeNum minutes
                     (map_option departureTime found) options)
           (glenWaverleyLoop clock glenWaverleyBusList trainArr rest))"

text \<open>
  The statements of the handler that fill \<^verbatim>\<open>options\<close>, from "Find best bus option from each
  station" to the end of the loop.
\<close>

definition handler_options ::
  "(nat \<Rightarrow> int) \<Rightarrow> (station_key \<Rightarrow> date) \<Rightarrow> payload \<Rightarrow> payload \<Rightarrow> payload \<Rightarrow> payload
     \<Rightarrow> error + itinerary list"
where
  "handler_options clock arrivals mtWaverleyBuses syndal703Buses syndal737Buses glenWaverleyBuses =
     and_then (departures_array mtWaverleyBuses) (\<lambda>ds733.
     let mtWaverleyBusList = withRouteNumber mtWaverleyBuses ''733'' ds733;
         bus733 = findNextBus mtWaverleyBusList (arrivals mountWaverley) [''733''] MIN_TRANSFER_TIME
     in
     and_then (pushOption clock ''Mount Waverley'' (arrivals mountWaverley) ''733''
                 (BUS_TRAVEL_TIMES 733) (map_option departureTime bus733) []) (\<lambda>options1.
     and_then (departures_array syndal703Buses) (\<lambda>ds703.
     let syndal703List = withRouteNumber syndal703Buses ''703'' ds703;
         bus703 = findNextBus syndal703List (arrivals syndal) [''703''] MIN_TRANSFER_TIME
     in
     and_then (pushOption clock ''Syndal'' (arrivals syndal) ''703''
                 (BUS_TRAVEL_TIMES 703) (map_option departureTime bus703) options1) (\<lambda>options2.
     and_then (departures_array syndal737Buses) (\<lambda>ds737.
     let syndal737List = withRouteNumber syndal737Buses ''737'' ds737;
         bus737Syndal = findNextBus syndal737List (arrivals syndal) [''737''] MIN_TRANSFER_TIME
     in
     and_then (pushOption clock ''Syndal'' (arrivals syndal) ''737''
                 (BUS_TRAVEL_TIMES 737) (map_option departureTime bus737Syndal) options2) (\<lambda>options3.
     and_then (departures_array glenWaverleyBuses) (\<lambda>dsGlen.
     let glenWaverleyBusList = withRouteNumber glenWaverleyBuses ''unknown'' dsGlen
     in glenWaverleyLoop clock glenWaverleyBusList (arrivals glenWaverley) [''742'', ''737'']
          options3)))))))"

text \<open>The body of \<^verbatim>\<open>try\<close> after the five payloads have been awaited.\<close>

definition handler_body ::
  "(nat \<Rightarrow> int) \<Rightarrow> payload \<Rightarrow> payload \<Rightarrow> payload \<Rightarrow> payload \<Rightarrow> payload \<Rightarrow> response"
where
  "handler_body clock mtWaverleyTrains mtWaverleyBuses syndal703Buses syndal737Buses glenWaverleyBuses =
     (case outboundTrains mtWaverleyTrains of
        Inl e \<Rightarrow> Failed e
      | Inr trains \<Rightarrow>
          (case first trains of
             None \<Rightarrow> NoTrains (clock 0)
           | Some nextTrain' \<Rightarrow>
               (case and_then
                       (handler_options clock (trainArrivals nextTrain') mtWaverleyBuses
                          syndal703Buses syndal737Buses glenWaverleyBuses)
                       (respond clock (trainArrivals nextTrain')) of
                  Inl e \<Rightarrow> Failed e
                | Inr r \<Rightarrow> Recommendation r)))"

text \<open>
  The handler on the five response bodies that \<^verbatim>\<open>fetchPTV\<close> returned: the four bus
  payloads first pass through the route filter of \<^verbatim>\<open>getBusDepartures\<close>; anything thrown
  ends in the \<^verbatim>\<open>catch\<close> block.
\<close>

definition handler ::
  "(nat \<Rightarrow> int) \<Rightarrow> payload \<Rightarrow> payload \<Rightarrow> payload \<Rightarrow> payload \<Rightarrow> payload \<Rightarrow> response"
where
  "handler clock trainData data733 data703 data737 dataGlen =
     (case and_then (getBusDepartures [733] data733) (\<lambda>mtWaverleyBuses.
           and_then (getBusDepartures [703] data703) (\<lambda>syndal703Buses.
           and_then (getBusDepartures [737] data737) (\<lambda>syndal737Buses.
           and_then (getBusDepartures [742, 737] dataGlen) (\<lambda>glenWaverleyBuses.
             Inr (handler_body clock trainData mtWaverleyBuses syndal703Buses syndal737Buses
                    glenWaverleyBuses))))) of
        Inl e \<Rightarrow> Failed e
      | Inr response \<Rightarrow> response)"

section \<open>src/server.mjs: handleAPI\<close>

text \<open>
  \<^verbatim>\<open>handleAPI\<close> has no route filter after the fetch: \<^verbatim>\<open>findBus\<close> filters by route itself.
  First the statements that fill \<^verbatim>\<open>options\<close>, then the whole function.
\<close>

definition handleAPI_options ::
  "(nat \<Rightarrow> int) \<Rightarrow> (station_key \<Rightarrow> date) \<Rightarrow> payload \<Rightarrow> payload \<Rightarrow> payload \<Rightarrow> payload
     \<Rightarrow> error + itinerary list"
where
  "handleAPI_options clock arrivals mt733 syn703 syn737 gw =
     and_then (findBus mt733 [733] (arrivals mountWaverley) (routes mt733)) (\<lambda>b733.
     and_then (pushOption clock ''Mount Waverley'' (arrivals mountWaverley) ''733''
                 (BUS_TRAVEL_TIMES 733) (map_option time b733) []) (\<lambda>options1.
     and_then (findBus syn703 [703] (arrivals syndal) (routes syn703)) (\<lambda>b703.
     and_then (pushOption clock ''Syndal'' (arrivals syndal) ''703''
                 (BUS_TRAVEL_TIMES 703) (map_option time b703) options1) (\<lambda>options2.
     and_then (findBus syn737 [737] (arrivals syndal) (routes syn737)) (\<lambda>b737s.
     and_then (pushOption clock ''Syndal'' (arrivals syndal) ''737''
                 (BUS_TRAVEL_TIMES 737) (map_option time b737s) options2) (\<lambda>options3.
     and_then (findBus gw [742] (arrivals glenWaverley) (routes gw)) (\<lambda>b742.
     and_then (pushOption clock ''Glen Waverley'' (arrivals glenWaverley) ''742''
                 (BUS_TRAVEL_TIMES 742) (map_option time b742) options3) (\<lambda>options4.
     and_then (findBus gw [737] (arrivals glenWaverley) (routes gw)) (\<lambda>b737g.
     pushOption clock ''Glen Waverley'' (arrivals glenWaverley) ''737''
       (BUS_TRAVEL_TIMES 737) (map_option time b737g) options4)))))))))"

definition handleAPI ::
  "(nat \<Rightarrow> int) \<Rightarrow> payload \<Rightarrow> payload \<Rightarrow> payload \<Rightarrow> payload \<Rightarrow> payload \<Rightarrow> response"
where
  "handleAPI clock trains mt733 syn703 syn737 gw =
     (case outboundTrains trains of
        Inl e \<Rightarrow> Failed e
      | Inr outbound \<Rightarrow>
          (case first outbound of
             None \<Rightarrow> NoTrains (clock 0)
           | Some nextTrain' \<Rightarrow>
               (case and_then
                       (handleAPI_options clock (trainArrivals nextTrain') mt733 syn703 syn737 gw)
                       (respond clock (trainArrivals nextTrain')) of
                  Inl e \<Rightarrow> Failed e
                | Inr r \<Rightarrow> Recommendation r)))"

section \<open>Notions used in the statements\<close>

text \<open>
  The resolved instant of a departure record, as every \<^verbatim>\<open>map\<close> of the code computes it:
  \<^verbatim>\<open>new Date(dep.estimated_departure_utc || dep.scheduled_departure_utc)\<close>.
\<close>

definition resolved :: "'a raw_departure_scheme \<Rightarrow> date" where
  "resolved dep = new_Date (js_or (estimated_departure_utc dep) (scheduled_departure_utc dep))"

text \<open>The largest time value of a valid date.\<close>

definition maxTime :: int where
  "maxTime = 8640000000000000"

text \<open>Whether a departure is of one of the given routes: the first filter of \<^verbatim>\<open>findBus\<close>.\<close>

definition on_route :: "(int \<rightharpoonup> route_info) option \<Rightarrow> nat list \<Rightarrow> 'a raw_departure_scheme \<Rightarrow> bool" where
  "on_route routeData rs d =
     list_ex (\<lambda>r. route_number_of routeData (route_id d) = Some (String_nat r)) rs"

text \<open>The departures of a payload, none when the list is absent.\<close>

definition departure_list :: "payload \<Rightarrow> raw_departure list" where
  "departure_list p = (case departures p of None \<Rightarrow> [] | Some ds \<Rightarrow> ds)"

text \<open>The projected arrival that a response reports for a station name.\<close>

definition station_arrival :: "next_train \<Rightarrow> string \<Rightarrow> iso_string" where
  "station_arrival n s =
     (if s = ''Mount Waverley'' then atMountWaverley n
      else if s = ''Syndal'' then atSyndal n else atGlenWaverley n)"

text \<open>The fetched departures behind an itinerary's station and route.\<close>

definition feed_for :: "payload \<Rightarrow> payload \<Rightarrow> payload \<Rightarrow> payload \<Rightarrow> itinerary \<Rightarrow> raw_departure list" where
  "feed_for data733 data703 data737 dataGlen x =
     (if station x = ''Mount Waverley'' then departure_list data733
      else if station x = ''Syndal''
        then (if route (bus x) = ''703'' then departure_list data703 else departure_list data737)
      else departure_list dataGlen)"

text \<open>
  The order in which the handlers go through the stations and routes.
\<close>

definition enumeration :: "(string \<times> string) list" where
  "enumeration =
     [(''Mount Waverley'', ''733''), (''Syndal'', ''703''), (''Syndal'', ''737''),
      (''Glen Waverley'', ''742''), (''Glen Waverley'', ''737'')]"

text \<open>
  The place of an itinerary in that order (5 for an itinerary of none of these pairs).
\<close>

definition enumeration_index :: "itinerary \<Rightarrow> nat" where
  "enumeration_index x =
     length (takeWhile (\<lambda>p. p \<noteq> (station x, route (bus x))) enumeration)"

text \<open>A payload without the departures that have no valid resolved date.\<close>

definition drop_malformed :: "payload \<Rightarrow> payload" where
  "drop_malformed p =
     p\<lparr>departures := map_option (filter (\<lambda>d. resolved d \<noteq> None)) (departures p)\<rparr>"




section \<open>The common shape of the two handlers\<close>

text \<open>
  Both handlers are the same skeleton around five steps, each a match that may throw
  followed by \<open>pushOption\<close>. The definitions of this section serve the proofs: they describe
  the handlers, and the lemmas below relate them to \<open>handler\<close> and \<open>handleAPI\<close>.
  First, what one \<open>pushOption\<close> appends when the clock reads \<open>now\<close>.
\<close>

definition segment :: "int \<Rightarrow> string \<Rightarrow> date \<Rightarrow> string \<Rightarrow> nat \<Rightarrow> date option \<Rightarrow> error + itinerary list" where
  "segment now stationName trainArr routeNum minutes matched =
     pushOption (\<lambda>i. now) stationName trainArr routeNum minutes matched []"

text \<open>Five matches, each followed by its push.\<close>

definition five_steps ::
  "(nat \<Rightarrow> int) \<Rightarrow> (station_key \<Rightarrow> date) \<Rightarrow> (error + date option) \<Rightarrow> (error + date option)
     \<Rightarrow> (error + date option) \<Rightarrow> (error + date option) \<Rightarrow> (error + date option)
     \<Rightarrow> error + itinerary list"
where
  "five_steps clock arrivals f733 f703 f737s f742 f737g =
     and_then f733 (\<lambda>m1.
     and_then (pushOption clock ''Mount Waverley'' (arrivals mountWaverley) ''733''
                 (BUS_TRAVEL_TIMES 733) m1 []) (\<lambda>options1.
     and_then f703 (\<lambda>m2.
     and_then (pushOption clock ''Syndal'' (arrivals syndal) ''703''
                 (BUS_TRAVEL_TIMES 703) m2 options1) (\<lambda>options2.
     and_then f737s (\<lambda>m3.
     and_then (pushOption clock ''Syndal'' (arrivals syndal) ''737''
                 (BUS_TRAVEL_TIMES 737) m3 options2) (\<lambda>options3.
     and_then f742 (\<lambda>m4.
     and_then (pushOption clock ''Glen Waverley'' (arrivals glenWaverley) ''742''
                 (BUS_TRAVEL_TIMES 742) m4 options3) (\<lambda>options4.
     and_then f737g (\<lambda>m5.
     pushOption clock ''Glen Waverley'' (arrivals glenWaverley) ''737''
       (BUS_TRAVEL_TIMES 737) m5 options4)))))))))"

text \<open>The match for one station and route in src/api/departures.js.\<close>

definition match_js :: "payload \<Rightarrow> string \<Rightarrow> (routed_departure \<Rightarrow> bool) \<Rightarrow> date \<Rightarrow> error + date option" where
  "match_js p fallback keep trainArr =
     and_then (departures_array p) (\<lambda>ds.
       Inr (map_option departureTime
              (findNextBus (filter keep (withRouteNumber p fallback ds)) trainArr []
                 MIN_TRANSFER_TIME)))"

text \<open>The match for one station and route in src/server.mjs.\<close>

definition match_mjs :: "payload \<Rightarrow> nat \<Rightarrow> date \<Rightarrow> error + date option" where
  "match_mjs p n trainArr =
     and_then (findBus p [n] trainArr (routes p)) (\<lambda>found. Inr (map_option time found))"

text \<open>The skeleton: next train, projected arrivals, the options, the response.\<close>

definition answer ::
  "(nat \<Rightarrow> int) \<Rightarrow> payload \<Rightarrow> ((station_key \<Rightarrow> date) \<Rightarrow> error + itinerary list) \<Rightarrow> response"
where
  "answer clock trainData build =
     (case outboundTrains trainData of
        Inl e \<Rightarrow> Failed e
      | Inr trains \<Rightarrow>
          (case first trains of
             None \<Rightarrow> NoTrains (clock 0)
           | Some nextTrain' \<Rightarrow>
               (case and_then (build (trainArrivals nextTrain'))
                       (respond clock (trainArrivals nextTrain')) of
                  Inl e \<Rightarrow> Failed e
                | Inr r \<Rightarrow> Recommendation r)))"

text \<open>The object that \<open>pushOption\<close> builds when the clock reads \<open>now\<close>.\<close>

definition itinerary_of :: "int \<Rightarrow> string \<Rightarrow> int \<Rightarrow> string \<Rightarrow> nat \<Rightarrow> int \<Rightarrow> itinerary" where
  "itinerary_of now stationName t routeNum minutes b =
     \<lparr>station = stationName, trainArrival = t,
      bus = \<lparr>route = routeNum, departure = b, travelTime = minutes\<rparr>,
      arrivalAtMonash = b + int minutes * 60000,
      totalMinutes = round_minutes (b + int minutes * 60000 - now)\<rparr>"

text \<open>What a successful run of the five steps has pushed.\<close>

definition pushed_by ::
  "(station_key \<Rightarrow> date) \<Rightarrow> (error + date option) \<Rightarrow> nat \<Rightarrow> string \<Rightarrow> station_key \<Rightarrow> string \<Rightarrow> nat
     \<Rightarrow> itinerary \<Rightarrow> bool"
where
  "pushed_by arr f i st key rn mins x \<longleftrightarrow>
     (\<exists>now t b. f = Inr (Some (Some b)) \<and> arr key = Some t \<and> \<bar>b + int mins * 60000\<bar> \<le> maxTime
        \<and> x = itinerary_of now st t rn mins b) \<and> enumeration_index x = i"

text \<open>
  A match is sound for a list of departures when every date it returns for a valid arrival
  is the resolved instant of a departure of the list, at least three minutes after the
  arrival.
\<close>

definition sound_match :: "(date \<Rightarrow> error + date option) \<Rightarrow> raw_departure list \<Rightarrow> bool" where
  "sound_match f ds \<longleftrightarrow>
     (\<forall>t d. f (Some t) = Inr (Some d) \<longrightarrow> \<bar>t\<bar> \<le> maxTime \<longrightarrow>
        (\<exists>b. d = Some b \<and> t + 180000 \<le> b \<and> (\<exists>dep\<in>set ds. resolved dep = Some b)))"

section \<open>Example feeds\<close>

text \<open>
  A train towards Glen Waverley leaving Mount Waverley at 10:00:00.000 (in milliseconds
  since midnight of the epoch day), and buses at 10:01, 10:04 and 10:10.
\<close>

definition example_departure :: "int \<Rightarrow> int option \<Rightarrow> int \<Rightarrow> raw_departure" where
  "example_departure rid dir ms =
     \<lparr>route_id = rid, direction_id = dir,
      scheduled_departure_utc = Utc ms, estimated_departure_utc = Null\<rparr>"

definition example_buses :: "raw_departure list" where
  "example_buses =
     [example_departure 1 None 36060000, example_departure 1 None 36240000,
      example_departure 1 None 36600000]"

definition example_feed :: "string \<Rightarrow> payload" where
  "example_feed num =
     \<lparr>departures = Some example_buses,
      routes = Some [1 \<mapsto> \<lparr>route_number = Some num, route_short_name = Some num\<rparr>]\<rparr>"

definition example_trains :: payload where
  "example_trains =
     \<lparr>departures = Some [example_departure 2 (Some 1) 35000000,
                          example_departure 2 (Some 6) 36000000],
      routes = None\<rparr>"


definition empty_feed :: payload where
  "empty_feed = \<lparr>departures = Some [], routes = None\<rparr>"


text \<open>A train payload with no departure towards Glen Waverley.\<close>

definition inbound_trains :: payload where
  "inbound_trains =
     \<lparr>departures = Some [example_departure 2 (Some 1) 35000000], routes = None\<rparr>"

text \<open>Payloads whose first record has no time that parses.\<close>

definition malformed_trains :: payload where
  "malformed_trains =
     \<lparr>departures = Some [\<lparr>route_id = 2, direction_id = Some 6,
                           scheduled_departure_utc = Unparseable,
                           estimated_departure_utc = Null\<rparr>,
                          example_departure 2 (Some 6) 36000000],
      routes = None\<rparr>"

definition malformed_buses :: payload where
  "malformed_buses =
     \<lparr>departures = Some (\<lparr>route_id = 1, direction_id = None,
                            scheduled_departure_utc = Unparseable,
                            estimated_departure_utc = Undefined\<rparr> # example_buses),
      routes = Some [1 \<mapsto> \<lparr>route_number = Some ''733'', route_short_name = Some ''733''\<rparr>]\<rparr>"

section \<open>Sorting with a comparator that is a difference of keys\<close>

lemma insert_sorted_insort_key:
  fixes k :: "'a \<Rightarrow> int"
  assumes "\<forall>y\<in>set ys. comparefn x y = Some (k x - k y)"
  shows "insert_sorted comparefn x ys = insort_key k x ys"
  using assms by (induction ys) auto

lemma Array_sort_sort_key:
  fixes k :: "'a \<Rightarrow> int"
  assumes "\<forall>x\<in>set xs. \<forall>y\<in>set xs. comparefn x y = Some (k x - k y)"
  shows "Array_sort comparefn xs = sort_key k xs"
  using assms
proof (induction xs)
  case Nil
  show ?case by (simp add: Array_sort_def)
next
  case (Cons x xs)
  have ih: "Array_sort comparefn xs = sort_key k xs" using Cons by simp
  have "Array_sort comparefn (x # xs) = insert_sorted comparefn x (Array_sort comparefn xs)"
    by (simp add: Array_sort_def)
  also have "\<dots> = insert_sorted comparefn x (sort_key k xs)" by (simp only: ih)
  also have "\<dots> = insort_key k x (sort_key k xs)"
    by (rule insert_sorted_insort_key) (use Cons.prems in simp)
  finally show ?case by simp
qed

lemma first_sort_key_None: "first (sort_key k xs) = None \<longleftrightarrow> xs = []"
proof -
  have "sort_key k xs = [] \<longleftrightarrow> xs = []"
    by (metis length_sort length_0_conv)
  then show ?thesis by (auto simp: first_def split: list.splits)
qed

lemma first_sort_key_Some:
  fixes k :: "'a \<Rightarrow> int"
  assumes "first (sort_key k xs) = Some x"
  shows "x \<in> set xs \<and> (\<forall>y\<in>set xs. k x \<le> k y)"
proof -
  from assms obtain rest where eq: "sort_key k xs = x # rest"
    by (auto simp: first_def split: list.splits)
  have "set (x # rest) = set xs" using set_sort[of k xs] eq by simp
  moreover have "sorted (map k (x # rest))" using sorted_sort_key[of k xs] eq by simp
  ultimately show ?thesis by auto
qed

section \<open>The transfer matcher\<close>

lemma new_Date_range: "new_Date v = Some b \<Longrightarrow> \<bar>b\<bar> \<le> maxTime"
  by (cases v) (auto simp: TimeClip_def maxTime_def split: if_splits)

lemma resolved_range: "resolved d = Some b \<Longrightarrow> \<bar>b\<bar> \<le> maxTime"
  unfolding resolved_def by (rule new_Date_range)

lemma date_ge_Some: "date_ge a b \<longleftrightarrow> (\<exists>x y. a = Some x \<and> b = Some y \<and> y \<le> x)"
  by (auto simp: date_ge_def split: option.splits)

text \<open>The threshold date of the matcher.\<close>

lemma threshold_cases:
  assumes "\<bar>t\<bar> \<le> maxTime"
  shows "new_Date_value (num_plus (getTime (Some t)) (int m * 60 * 1000)) =
           (if t + int m * 60000 \<le> maxTime then Some (t + int m * 60000) else None)"
  using assms by (auto simp: new_Date_value_def num_plus_def getTime_def TimeClip_def maxTime_def)

lemma threshold_None: "new_Date_value (num_plus (getTime None) k) = None"
  by (simp add: new_Date_value_def num_plus_def getTime_def)

text \<open>Selecting the earliest candidate at or after a threshold.\<close>

lemma earliest_after:
  fixes tm :: "'b \<Rightarrow> date"
  assumes sel: "sel = first (Array_sort (\<lambda>a b. date_minus (tm a) (tm b))
                          (filter (\<lambda>c. date_ge (tm c) th) cands))"
  shows "(sel = None \<longrightarrow> (\<forall>c\<in>set cands. \<not> date_ge (tm c) th))
       \<and> (\<forall>r. sel = Some r \<longrightarrow> r \<in> set cands \<and> date_ge (tm r) th
             \<and> (\<forall>c\<in>set cands. date_ge (tm c) th \<longrightarrow> date_ge (tm c) (tm r)))"
proof -
  let ?xs = "filter (\<lambda>c. date_ge (tm c) th) cands"
  let ?k = "\<lambda>c. the (tm c)"
  have valid: "\<forall>x\<in>set ?xs. tm x = Some (?k x)"
    by (auto simp: date_ge_Some)
  have "\<forall>x\<in>set ?xs. \<forall>y\<in>set ?xs. date_minus (tm x) (tm y) = Some (?k x - ?k y)"
    by (auto simp: date_ge_Some date_minus_def)
  then have srt: "Array_sort (\<lambda>a b. date_minus (tm a) (tm b)) ?xs = sort_key ?k ?xs"
    by (rule Array_sort_sort_key)
  have sel': "sel = first (sort_key ?k ?xs)" using sel srt by simp
  have none: "sel = None \<longrightarrow> (\<forall>c\<in>set cands. \<not> date_ge (tm c) th)"
    using sel' first_sort_key_None[of ?k ?xs] by (auto simp: filter_empty_conv)
  have some: "\<forall>r. sel = Some r \<longrightarrow> r \<in> set cands \<and> date_ge (tm r) th
             \<and> (\<forall>c\<in>set cands. date_ge (tm c) th \<longrightarrow> date_ge (tm c) (tm r))"
  proof (intro allI impI)
    fix r assume "sel = Some r"
    then have f: "first (sort_key ?k ?xs) = Some r" using sel' by simp
    from first_sort_key_Some[OF f]
    have r: "r \<in> set ?xs" and mn: "\<forall>y\<in>set ?xs. ?k r \<le> ?k y" by auto
    from r have rc: "r \<in> set cands" and rge: "date_ge (tm r) th" by auto
    have "\<forall>c\<in>set cands. date_ge (tm c) th \<longrightarrow> date_ge (tm c) (tm r)"
    proof (intro ballI impI)
      fix c assume c: "c \<in> set cands" "date_ge (tm c) th"
      then have cx: "c \<in> set ?xs" by simp
      from mn cx have "?k r \<le> ?k c" by blast
      moreover from valid cx have "tm c = Some (?k c)" by blast
      moreover from valid r have "tm r = Some (?k r)" by blast
      ultimately show "date_ge (tm c) (tm r)" unfolding date_ge_Some by blast
    qed
    with rc rge show "r \<in> set cands \<and> date_ge (tm r) th
             \<and> (\<forall>c\<in>set cands. date_ge (tm c) th \<longrightarrow> date_ge (tm c) (tm r))" by blast
  qed
  from none some show ?thesis by blast
qed

lemma earliest_resolved:
  fixes tm :: "'b \<Rightarrow> date" and ext :: "'a raw_departure_scheme \<Rightarrow> 'b"
  assumes t: "\<bar>t\<bar> \<le> maxTime"
    and sel: "sel = first (Array_sort (\<lambda>a b. date_minus (tm a) (tm b))
                 (filter (\<lambda>c. date_ge (tm c)
                            (new_Date_value (num_plus (getTime (Some t)) (int m * 60 * 1000))))
                    (map ext ds)))"
    and tm_ext: "\<And>d. tm (ext d) = resolved d"
  shows "(sel = None \<longrightarrow> (\<forall>d\<in>set ds. \<forall>b. resolved d = Some b \<longrightarrow> b < t + int m * 60000))
       \<and> (\<forall>r. sel = Some r \<longrightarrow>
             (\<exists>d\<in>set ds. r = ext d \<and>
                (\<exists>b. tm r = Some b \<and> resolved d = Some b \<and> t + int m * 60000 \<le> b
                  \<and> (\<forall>d'\<in>set ds. \<forall>b'. resolved d' = Some b' \<longrightarrow>
                         t + int m * 60000 \<le> b' \<longrightarrow> b \<le> b'))))"
proof -
  let ?th = "new_Date_value (num_plus (getTime (Some t)) (int m * 60 * 1000))"
  let ?cands = "map ext ds"
  note E = earliest_after[OF sel]
  have th: "?th = (if t + int m * 60000 \<le> maxTime then Some (t + int m * 60000) else None)"
    by (rule threshold_cases[OF t])
  have none: "sel = None \<longrightarrow> (\<forall>d\<in>set ds. \<forall>b. resolved d = Some b \<longrightarrow> b < t + int m * 60000)"
  proof (intro impI ballI allI)
    fix d b assume "sel = None" and d: "d \<in> set ds" and b: "resolved d = Some b"
    with E have "\<not> date_ge (tm (ext d)) ?th" by simp
    then have n: "\<not> date_ge (Some b) ?th" using tm_ext b by simp
    from resolved_range[OF b] have "b \<le> maxTime" by simp
    with n th show "b < t + int m * 60000"
      by (auto simp: date_ge_Some split: if_splits)
  qed
  have some: "\<forall>r. sel = Some r \<longrightarrow>
             (\<exists>d\<in>set ds. r = ext d \<and>
                (\<exists>b. tm r = Some b \<and> resolved d = Some b \<and> t + int m * 60000 \<le> b
                  \<and> (\<forall>d'\<in>set ds. \<forall>b'. resolved d' = Some b' \<longrightarrow>
                         t + int m * 60000 \<le> b' \<longrightarrow> b \<le> b')))"
  proof (intro allI impI)
    fix r assume "sel = Some r"
    with E have rc: "r \<in> set ?cands" and rge: "date_ge (tm r) ?th"
      and mn: "\<forall>c\<in>set ?cands. date_ge (tm c) ?th \<longrightarrow> date_ge (tm c) (tm r)"
      by blast+
    from rc obtain d where d: "d \<in> set ds" and r: "r = ext d" by auto
    from rge obtain b where b: "tm r = Some b" and thb: "?th = Some (t + int m * 60000)"
      and le: "t + int m * 60000 \<le> b"
      using th by (auto simp: date_ge_Some split: if_splits)
    have rd: "resolved d = Some b" using b r tm_ext by simp
    have "\<forall>d'\<in>set ds. \<forall>b'. resolved d' = Some b' \<longrightarrow> t + int m * 60000 \<le> b' \<longrightarrow> b \<le> b'"
    proof (intro ballI allI impI)
      fix d' b' assume d': "d' \<in> set ds" and b': "resolved d' = Some b'"
        and le': "t + int m * 60000 \<le> b'"
      have "date_ge (tm (ext d')) ?th" using tm_ext b' thb le' by (simp add: date_ge_Some)
      moreover have "ext d' \<in> set ?cands" using d' by simp
      ultimately have "date_ge (tm (ext d')) (tm r)" using mn by blast
      then show "b \<le> b'" using tm_ext b' b by (simp add: date_ge_Some)
    qed
    with d r b rd le show "\<exists>d\<in>set ds. r = ext d \<and>
                (\<exists>b. tm r = Some b \<and> resolved d = Some b \<and> t + int m * 60000 \<le> b
                  \<and> (\<forall>d'\<in>set ds. \<forall>b'. resolved d' = Some b' \<longrightarrow>
                         t + int m * 60000 \<le> b' \<longrightarrow> b \<le> b'))" by blast
  qed
  from none some show ?thesis by blast
qed

lemma earliest_invalid_arrival:
  "first (Array_sort cmp (filter (\<lambda>c. date_ge (tm c) (new_Date_value (num_plus (getTime None) k))) cands)) = None"
  by (simp add: threshold_None date_ge_Some Array_sort_def first_def)

lemma findNextBus_cases:
  assumes t: "\<bar>t\<bar> \<le> maxTime"
  shows "(findNextBus busDepartures (Some t) rs m = None \<longrightarrow>
            (\<forall>d\<in>set busDepartures. \<forall>b. resolved d = Some b \<longrightarrow> b < t + int m * 60000))
       \<and> (\<forall>r. findNextBus busDepartures (Some t) rs m = Some r \<longrightarrow>
            routed_departure.truncate r \<in> set busDepartures
             \<and> (\<exists>b. departureTime r = Some b \<and> resolved r = Some b \<and> t + int m * 60000 \<le> b
                  \<and> (\<forall>d\<in>set busDepartures. \<forall>b'. resolved d = Some b' \<longrightarrow>
                         t + int m * 60000 \<le> b' \<longrightarrow> b \<le> b')))"
proof -
  let ?ext = "\<lambda>dep::routed_departure. routed_departure.extend dep
                 \<lparr>departureTime = new_Date (js_or (estimated_departure_utc dep)
                                                   (scheduled_departure_utc dep))\<rparr>"
  have sel: "findNextBus busDepartures (Some t) rs m =
          first (Array_sort (\<lambda>a b. date_minus (departureTime a) (departureTime b))
                   (filter (\<lambda>c. date_ge (departureTime c)
                       (new_Date_value (num_plus (getTime (Some t)) (int m * 60 * 1000))))
                     (map ?ext busDepartures)))"
    by (simp add: findNextBus_def Let_def)
  have ext_time: "\<And>d. departureTime (?ext d) = resolved d"
    by (simp add: routed_departure.defs resolved_def)
  have ext_res: "\<And>d. resolved (?ext d) = resolved d"
    by (simp add: routed_departure.defs resolved_def)
  have ext_tr: "\<And>d. routed_departure.truncate (?ext d) = d"
    by (simp add: routed_departure.defs)
  note E = earliest_resolved[OF t sel ext_time]
  show ?thesis
  proof (intro conjI allI impI)
    assume "findNextBus busDepartures (Some t) rs m = None"
    with E show "\<forall>d\<in>set busDepartures. \<forall>b. resolved d = Some b \<longrightarrow> b < t + int m * 60000"
      by blast
  next
    fix r assume r: "findNextBus busDepartures (Some t) rs m = Some r"
    with E obtain d b where d: "d \<in> set busDepartures" "r = ?ext d"
      and b: "departureTime r = Some b" "resolved d = Some b" "t + int m * 60000 \<le> b"
      and mn: "\<forall>d'\<in>set busDepartures. \<forall>b'. resolved d' = Some b' \<longrightarrow>
                         t + int m * 60000 \<le> b' \<longrightarrow> b \<le> b'"
      by blast
    from d show "routed_departure.truncate r \<in> set busDepartures" using ext_tr by simp
    from d b mn ext_res
    show "\<exists>b. departureTime r = Some b \<and> resolved r = Some b \<and> t + int m * 60000 \<le> b
                  \<and> (\<forall>d\<in>set busDepartures. \<forall>b'. resolved d = Some b' \<longrightarrow>
                         t + int m * 60000 \<le> b' \<longrightarrow> b \<le> b')"
      by auto
  qed
qed

lemma findBus_cases:
  assumes t: "\<bar>t\<bar> \<le> maxTime" and ds: "departures deps = Some ds"
  shows "\<exists>res. findBus deps rs (Some t) routeData = Inr res
       \<and> (res = None \<longrightarrow>
            (\<forall>d\<in>set ds. on_route routeData rs d \<longrightarrow>
               (\<forall>b. resolved d = Some b \<longrightarrow> b < t + 3 * 60000)))
       \<and> (\<forall>r. res = Some r \<longrightarrow>
            raw_departure.truncate r \<in> set ds \<and> on_route routeData rs r
             \<and> (\<exists>b. time r = Some b \<and> resolved r = Some b \<and> t + 3 * 60000 \<le> b
                  \<and> (\<forall>d\<in>set ds. on_route routeData rs d \<longrightarrow>
                       (\<forall>b'. resolved d = Some b' \<longrightarrow> t + 3 * 60000 \<le> b' \<longrightarrow> b \<le> b'))))"
proof -
  let ?ext = "\<lambda>d::raw_departure. raw_departure.extend d
                 \<lparr>time = new_Date (js_or (estimated_departure_utc d) (scheduled_departure_utc d)),
                  route = route_number_of routeData (route_id d)\<rparr>"
  let ?on = "filter (on_route routeData rs) ds"
  define res where "res = first (Array_sort (\<lambda>a b. date_minus (time a) (time b))
                   (filter (\<lambda>c. date_ge (time c)
                       (new_Date_value (num_plus (getTime (Some t)) (int 3 * 60 * 1000))))
                     (map ?ext ?on)))"
  have fb: "findBus deps rs (Some t) routeData = Inr res"
    using ds by (simp add: findBus_def Let_def res_def MIN_TRANSFER_def on_route_def[abs_def])
  have ext_time: "\<And>d. time (?ext d) = resolved d"
    by (simp add: raw_departure.defs resolved_def)
  have ext_res: "\<And>d. resolved (?ext d) = resolved d"
    by (simp add: raw_departure.defs resolved_def)
  have ext_tr: "\<And>d. raw_departure.truncate (?ext d) = d"
    by (simp add: raw_departure.defs)
  have ext_on: "\<And>d. on_route routeData rs (?ext d) = on_route routeData rs d"
    by (simp add: raw_departure.defs on_route_def)
  note E = earliest_resolved[OF t res_def ext_time]
  have none: "res = None \<longrightarrow>
            (\<forall>d\<in>set ds. on_route routeData rs d \<longrightarrow>
               (\<forall>b. resolved d = Some b \<longrightarrow> b < t + 3 * 60000))"
    using E by auto
  have some: "\<forall>r. res = Some r \<longrightarrow>
            raw_departure.truncate r \<in> set ds \<and> on_route routeData rs r
             \<and> (\<exists>b. time r = Some b \<and> resolved r = Some b \<and> t + 3 * 60000 \<le> b
                  \<and> (\<forall>d\<in>set ds. on_route routeData rs d \<longrightarrow>
                       (\<forall>b'. resolved d = Some b' \<longrightarrow> t + 3 * 60000 \<le> b' \<longrightarrow> b \<le> b')))"
  proof (intro allI impI)
    fix r assume "res = Some r"
    with E obtain d b where d: "d \<in> set ?on" "r = ?ext d"
      and b: "time r = Some b" "resolved d = Some b" "t + int 3 * 60000 \<le> b"
      and mn: "\<forall>d'\<in>set ?on. \<forall>b'. resolved d' = Some b' \<longrightarrow>
                         t + int 3 * 60000 \<le> b' \<longrightarrow> b \<le> b'"
      by blast
    have 1: "raw_departure.truncate r \<in> set ds" using d ext_tr by simp
    have 2: "on_route routeData rs r" using d ext_on by simp
    have 3: "resolved r = Some b" using d b ext_res by simp
    from 1 2 3 b mn
    show "raw_departure.truncate r \<in> set ds \<and> on_route routeData rs r
             \<and> (\<exists>b. time r = Some b \<and> resolved r = Some b \<and> t + 3 * 60000 \<le> b
                  \<and> (\<forall>d\<in>set ds. on_route routeData rs d \<longrightarrow>
                       (\<forall>b'. resolved d = Some b' \<longrightarrow> t + 3 * 60000 \<le> b' \<longrightarrow> b \<le> b')))"
      by auto
  qed
  from fb none some show ?thesis by blast
qed

text \<open>
  C1. For a valid arrival date and a buffer in minutes, \<open>findNextBus\<close> returns a departure
  of the list whose resolved instant is at or after arrival plus buffer and is the least
  such instant; it returns nothing exactly when no departure of the list qualifies.
  \<open>findBus\<close> does the same, with the buffer of 3 minutes, among the departures of the
  payload that are of the requested routes.
\<close>

theorem transfer_matcher_earliest:
  assumes "\<bar>t\<bar> \<le> maxTime" and "departures deps = Some ds"
  shows "(findNextBus busDepartures (Some t) rs m = None \<longrightarrow>
            (\<forall>d\<in>set busDepartures. \<forall>b. resolved d = Some b \<longrightarrow> b < t + int m * 60000))
       \<and> (\<forall>r. findNextBus busDepartures (Some t) rs m = Some r \<longrightarrow>
            routed_departure.truncate r \<in> set busDepartures
             \<and> (\<exists>b. departureTime r = Some b \<and> resolved r = Some b \<and> t + int m * 60000 \<le> b
                  \<and> (\<forall>d\<in>set busDepartures. \<forall>b'. resolved d = Some b' \<longrightarrow>
                         t + int m * 60000 \<le> b' \<longrightarrow> b \<le> b')))
       \<and> (\<exists>res. findBus deps ns (Some t) routeData = Inr res
            \<and> (res = None \<longrightarrow>
                 (\<forall>d\<in>set ds. on_route routeData ns d \<longrightarrow>
                    (\<forall>b. resolved d = Some b \<longrightarrow> b < t + 3 * 60000)))
            \<and> (\<forall>r. res = Some r \<longrightarrow>
                 raw_departure.truncate r \<in> set ds \<and> on_route routeData ns r
                  \<and> (\<exists>b. time r = Some b \<and> resolved r = Some b \<and> t + 3 * 60000 \<le> b
                       \<and> (\<forall>d\<in>set ds. on_route routeData ns d \<longrightarrow>
                            (\<forall>b'. resolved d = Some b' \<longrightarrow> t + 3 * 60000 \<le> b'
                               \<longrightarrow> b \<le> b')))))"
  using findNextBus_cases[OF assms(1), of busDepartures rs m]
        findBus_cases[OF assms, of ns routeData]
  by blast

lemmas example_defs =
  example_departure_def example_buses_def example_feed_def example_trains_def empty_feed_def

lemmas matcher_eval =
  findNextBus_def findBus_def Array_sort_def first_def date_ge_def date_minus_def
  new_Date_value_def num_plus_def getTime_def TimeClip_def js_or_def withRouteNumber_def
  route_number_of_def raw_departure.defs routed_departure.defs MIN_TRANSFER_def
  String_nat.simps digit_def Let_def

theorem transfer_matcher_earliest_witness:
  "\<bar>36000000\<bar> \<le> maxTime \<and> departures (example_feed ''733'') = Some example_buses
   \<and> (\<exists>r b. findNextBus (withRouteNumber (example_feed ''733'') ''733'' example_buses)
              (Some 36000000) [''733''] 3 = Some r
            \<and> departureTime r = Some b \<and> resolved r = Some b \<and> 36000000 + int 3 * 60000 \<le> b)
   \<and> (\<exists>r. findBus (example_feed ''733'') [733] (Some 36000000) (routes (example_feed ''733''))
            = Inr (Some r) \<and> time r = Some 36240000)"
proof -
  have h1: "\<bar>36000000\<bar> \<le> maxTime" by (simp add: maxTime_def)
  have h2: "departures (example_feed ''733'') = Some example_buses"
    by (simp add: example_feed_def)
  note T = transfer_matcher_earliest[OF h1 h2,
      of "withRouteNumber (example_feed ''733'') ''733'' example_buses" "[''733'']" 3 "[733]"
         "routes (example_feed ''733'')"]
  have "findNextBus (withRouteNumber (example_feed ''733'') ''733'' example_buses)
           (Some 36000000) [''733''] 3 \<noteq> None"
    by (simp add: example_defs matcher_eval)
  then obtain r where r: "findNextBus (withRouteNumber (example_feed ''733'') ''733'' example_buses)
           (Some 36000000) [''733''] 3 = Some r"
    by blast
  with T have a: "\<exists>b. departureTime r = Some b \<and> resolved r = Some b
                     \<and> 36000000 + int 3 * 60000 \<le> b"
    by blast
  have b: "\<exists>r. findBus (example_feed ''733'') [733] (Some 36000000) (routes (example_feed ''733''))
            = Inr (Some r) \<and> time r = Some 36240000"
    by (simp add: example_defs matcher_eval)
  from h1 h2 r a b show ?thesis by blast
qed

section \<open>The handlers as five steps\<close>

lemma and_then_Inr [simp]: "and_then (Inr v) f = f v"
  by (simp add: and_then_def)

lemma and_then_Inl [simp]: "and_then (Inl e) f = Inl e"
  by (simp add: and_then_def)

lemma and_then_assoc: "and_then (and_then r f) g = and_then r (\<lambda>x. and_then (f x) g)"
  by (cases r) simp_all

lemma and_then_Inr_iff: "and_then r f = Inr v \<longleftrightarrow> (\<exists>x. r = Inr x \<and> f x = Inr v)"
  by (cases r) simp_all


lemma findNextBus_routes: "findNextBus ds ta rs m = findNextBus ds ta [] m"
  by (simp add: findNextBus_def)

lemma handler_options_steps:
  "handler_options clock arrivals mtWaverleyBuses syndal703Buses syndal737Buses glenWaverleyBuses =
     five_steps clock arrivals
       (match_js mtWaverleyBuses ''733'' (\<lambda>b. True) (arrivals mountWaverley))
       (match_js syndal703Buses ''703'' (\<lambda>b. True) (arrivals syndal))
       (match_js syndal737Buses ''737'' (\<lambda>b. True) (arrivals syndal))
       (match_js glenWaverleyBuses ''unknown'' (\<lambda>b. routeNumber b = ''742'') (arrivals glenWaverley))
       (match_js glenWaverleyBuses ''unknown'' (\<lambda>b. routeNumber b = ''737'') (arrivals glenWaverley))"
proof -
  have fr: "\<And>ds ta rs. findNextBus ds ta rs MIN_TRANSFER_TIME = findNextBus ds ta [] MIN_TRANSFER_TIME"
    by (rule findNextBus_routes)
  show ?thesis
    unfolding handler_options_def five_steps_def match_js_def Let_def and_then_assoc
      glenWaverleyLoop.simps
    apply (subst fr[of _ _ "[''733'']"])
    apply (subst fr[of _ _ "[''703'']"])
    apply (subst fr[of _ _ "[''737'']"])
    apply (subst fr[of _ _ "[''742'']"])
    apply (subst fr[of _ _ "[''737'']"])
    apply (cases "departures_array glenWaverleyBuses")
     apply (simp_all add: BUS_TRAVEL_TIMES_def)
    apply (auto simp: and_then_def split: sum.splits)
    done
qed

lemma handleAPI_options_steps:
  "handleAPI_options clock arrivals mt733 syn703 syn737 gw =
     five_steps clock arrivals
       (match_mjs mt733 733 (arrivals mountWaverley))
       (match_mjs syn703 703 (arrivals syndal))
       (match_mjs syn737 737 (arrivals syndal))
       (match_mjs gw 742 (arrivals glenWaverley))
       (match_mjs gw 737 (arrivals glenWaverley))"
  unfolding handleAPI_options_def five_steps_def match_mjs_def and_then_assoc
  by simp

lemma handler_body_answer:
  "handler_body clock T B1 B2 B3 B4 = answer clock T (\<lambda>arr. handler_options clock arr B1 B2 B3 B4)"
  by (simp add: handler_body_def answer_def)

lemma handleAPI_answer:
  "handleAPI clock T B1 B2 B3 B4 = answer clock T (\<lambda>arr. handleAPI_options clock arr B1 B2 B3 B4)"
  by (simp add: handleAPI_def answer_def)

lemma answer_Recommendation_iff:
  "answer clock T build = Recommendation r \<longleftrightarrow>
     (\<exists>trains nt opts. outboundTrains T = Inr trains \<and> first trains = Some nt
        \<and> build (trainArrivals nt) = Inr opts \<and> respond clock (trainArrivals nt) opts = Inr r)"
  by (auto simp: answer_def and_then_Inr_iff split: sum.splits option.splits)

lemma toISOString_Inr_iff: "toISOString d = Inr t \<longleftrightarrow> d = Some t"
  by (cases d) (simp_all add: toISOString_def)

lemma segment_None: "segment now st ta rn mins None = Inr []"
  by (simp add: segment_def pushOption_def)

lemma segment_Some_iff:
  "segment now st ta rn mins (Some bt) = Inr s \<longleftrightarrow>
     (\<exists>t b. ta = Some t \<and> bt = Some b \<and> \<bar>b + int mins * 60000\<bar> \<le> maxTime
        \<and> s = [itinerary_of now st t rn mins b])"
proof -
  have k: "int mins * 60 * 1000 = int mins * 60000" by simp
  show ?thesis
    unfolding segment_def pushOption_def k
    by (cases ta; cases bt)
       (auto simp: toISOString_def new_Date_value_def num_plus_def
          getTime_def TimeClip_def maxTime_def itinerary_of_def Let_def)
qed

lemma segment_Inr_iff:
  "segment now st ta rn mins m = Inr s \<longleftrightarrow>
     (m = None \<and> s = []) \<or>
     (\<exists>t b. ta = Some t \<and> m = Some (Some b) \<and> \<bar>b + int mins * 60000\<bar> \<le> maxTime
        \<and> s = [itinerary_of now st t rn mins b])"
  by (cases m) (auto simp: segment_None segment_Some_iff)

lemma pushOption_segment:
  "pushOption clock st ta rn mins m os =
     and_then (segment (clock (length os)) st ta rn mins m) (\<lambda>s. Inr (os @ s))"
  by (cases m; cases ta; cases "the m")
     (auto simp: segment_def pushOption_def toISOString_def Let_def and_then_def
        split: sum.splits option.splits)

lemma five_steps_Inr_iff:
  "five_steps clock arr f1 f2 f3 f4 f5 = Inr opts \<longleftrightarrow>
     (\<exists>m1 s1 m2 s2 m3 s3 m4 s4 m5 s5.
        f1 = Inr m1 \<and> segment (clock 0) ''Mount Waverley'' (arr mountWaverley) ''733'' 17 m1 = Inr s1
      \<and> f2 = Inr m2 \<and> segment (clock (length s1)) ''Syndal'' (arr syndal) ''703'' 13 m2 = Inr s2
      \<and> f3 = Inr m3 \<and> segment (clock (length s1 + length s2)) ''Syndal'' (arr syndal) ''737'' 15 m3 = Inr s3
      \<and> f4 = Inr m4 \<and> segment (clock (length s1 + length s2 + length s3)) ''Glen Waverley'' (arr glenWaverley) ''742'' 12 m4 = Inr s4
      \<and> f5 = Inr m5 \<and> segment (clock (length s1 + length s2 + length s3 + length s4)) ''Glen Waverley'' (arr glenWaverley) ''737'' 15 m5 = Inr s5
      \<and> s1 @ s2 @ s3 @ s4 @ s5 = opts)"
  unfolding five_steps_def pushOption_segment and_then_assoc and_then_Inr_iff
  by (simp add: BUS_TRAVEL_TIMES_def and_then_Inr_iff) 

section \<open>The next train and the response\<close>

lemma set_insert_sorted: "set (insert_sorted cmp x ys) = insert x (set ys)"
  by (induction ys) auto

lemma set_Array_sort: "set (Array_sort cmp xs) = set xs"
  by (induction xs) (simp_all add: Array_sort_def set_insert_sorted)

lemma Array_sort_Nil_iff: "Array_sort cmp xs = [] \<longleftrightarrow> xs = []"
  by (metis set_Array_sort set_empty)

lemma first_in_set: "first xs = Some x \<Longrightarrow> x \<in> set xs"
  by (auto simp: first_def split: list.splits)

lemma first_None_iff: "first xs = None \<longleftrightarrow> xs = []"
  by (auto simp: first_def split: list.splits)

lemma departures_array_Inr_iff: "departures_array p = Inr ds \<longleftrightarrow> departures p = Some ds"
  by (auto simp: departures_array_def split: option.splits)

lemma outboundTrains_Inr_iff:
  "outboundTrains T = Inr trains \<longleftrightarrow>
     (\<exists>ds. departures T = Some ds \<and>
        trains = Array_sort (\<lambda>a b. date_minus (arrivalTime a) (arrivalTime b))
              (map (\<lambda>dep. raw_departure.extend dep \<lparr>arrivalTime = resolved dep\<rparr>)
                 (filter (\<lambda>dep. direction_id dep = Some 6) ds)))"
  by (auto simp: outboundTrains_def and_then_Inr_iff departures_array_Inr_iff resolved_def)

lemma train_extend [simp]:
  "raw_departure.truncate (raw_departure.extend d \<lparr>arrivalTime = x\<rparr>) = d"
  "arrivalTime (raw_departure.extend d \<lparr>arrivalTime = x\<rparr>) = x"
  "direction_id (raw_departure.extend d \<lparr>arrivalTime = x\<rparr>) = direction_id d"
  "resolved (raw_departure.extend d \<lparr>arrivalTime = x\<rparr>) = resolved d"
  by (simp_all add: raw_departure.defs resolved_def)

lemma outbound_member:
  assumes "outboundTrains T = Inr trains" and "nt \<in> set trains"
  shows "\<exists>ds. departures T = Some ds \<and> raw_departure.truncate nt \<in> set ds
           \<and> direction_id nt = Some 6 \<and> arrivalTime nt = resolved nt"
proof -
  from assms obtain ds d where "departures T = Some ds" "d \<in> set ds" "direction_id d = Some 6"
    "nt = raw_departure.extend d \<lparr>arrivalTime = resolved d\<rparr>"
    unfolding outboundTrains_Inr_iff by (auto simp: set_Array_sort)
  then show ?thesis by simp
qed

lemma trainArrivals_Some:
  assumes "arrivalTime nt = Some t" and "\<bar>t\<bar> \<le> maxTime"
  shows "trainArrivals nt mountWaverley = Some t"
    and "trainArrivals nt syndal = (if t + 180000 \<le> maxTime then Some (t + 180000) else None)"
    and "trainArrivals nt glenWaverley = (if t + 360000 \<le> maxTime then Some (t + 360000) else None)"
  using assms
  by (auto simp: new_Date_value_def num_plus_def getTime_def TimeClip_def maxTime_def)

lemma trainArrivals_None:
  assumes "arrivalTime nt = None"
  shows "trainArrivals nt s = None"
  using assms by (cases s) (auto simp: new_Date_value_def num_plus_def getTime_def)

lemma trainArrivals_range:
  assumes "arrivalTime nt = resolved nt" and "trainArrivals nt s = Some t"
  shows "\<bar>t\<bar> \<le> maxTime"
proof (cases "arrivalTime nt")
  case None
  with assms(2) trainArrivals_None show ?thesis by simp
next
  case (Some a)
  with assms(1) have "\<bar>a\<bar> \<le> maxTime" using resolved_range by metis
  from trainArrivals_Some[OF Some this] assms(2) this Some
  show ?thesis by (cases s) (auto split: if_splits simp: maxTime_def)
qed

lemma respond_Inr_iff:
  "respond clock arr opts = Inr r \<longleftrightarrow>
     (\<exists>mw sy gw. arr mountWaverley = Some mw \<and> arr syndal = Some sy \<and> arr glenWaverley = Some gw
        \<and> r = \<lparr>timestamp = clock (length opts),
                nextTrain = \<lparr>atMountWaverley = mw, atSyndal = sy, atGlenWaverley = gw\<rparr>,
                recommendation = first (Array_sort (\<lambda>a b. date_minus (new_Date (Utc (arrivalAtMonash a)))
                                       (new_Date (Utc (arrivalAtMonash b)))) opts),
                allOptions = Array_sort (\<lambda>a b. date_minus (new_Date (Utc (arrivalAtMonash a)))
                                       (new_Date (Utc (arrivalAtMonash b)))) opts\<rparr>)"
  by (auto simp: respond_def and_then_Inr_iff toISOString_Inr_iff Let_def)

lemma sort_options:
  assumes "\<forall>x\<in>set opts. \<bar>arrivalAtMonash x\<bar> \<le> maxTime"
  shows "Array_sort (\<lambda>a b. date_minus (new_Date (Utc (arrivalAtMonash a)))
                                       (new_Date (Utc (arrivalAtMonash b)))) opts
         = sort_key arrivalAtMonash opts"
  by (rule Array_sort_sort_key) (use assms in \<open>auto simp: date_minus_def TimeClip_def maxTime_def\<close>)

text \<open>What the next train of a recommendation is.\<close>

lemma answer_next_train:
  assumes "answer clock T build = Recommendation r"
  shows "\<exists>ds nt t opts. departures T = Some ds \<and> outboundTrains T = Inr (nt # tl (projr (outboundTrains T)))
           \<and> raw_departure.truncate nt \<in> set ds \<and> direction_id nt = Some 6
           \<and> resolved nt = Some t \<and> arrivalTime nt = Some t
           \<and> build (trainArrivals nt) = Inr opts \<and> respond clock (trainArrivals nt) opts = Inr r
           \<and> trainArrivals nt mountWaverley = Some t
           \<and> trainArrivals nt syndal = Some (t + 180000)
           \<and> trainArrivals nt glenWaverley = Some (t + 360000)
           \<and> nextTrain r = \<lparr>atMountWaverley = t, atSyndal = t + 180000, atGlenWaverley = t + 360000\<rparr>"
proof -
  from assms obtain trains nt opts where tr: "outboundTrains T = Inr trains"
    and f: "first trains = Some nt" and b: "build (trainArrivals nt) = Inr opts"
    and rs: "respond clock (trainArrivals nt) opts = Inr r"
    unfolding answer_Recommendation_iff by blast
  from f have hd: "trains = nt # tl trains" by (auto simp: first_def split: list.splits)
  from f have "nt \<in> set trains" by (rule first_in_set)
  from outbound_member[OF tr this] obtain ds where ds: "departures T = Some ds"
    and m: "raw_departure.truncate nt \<in> set ds" "direction_id nt = Some 6"
    and a: "arrivalTime nt = resolved nt" by blast
  from rs obtain mw sy gw where v: "trainArrivals nt mountWaverley = Some mw"
      "trainArrivals nt syndal = Some sy" "trainArrivals nt glenWaverley = Some gw"
    and r: "nextTrain r = \<lparr>atMountWaverley = mw, atSyndal = sy, atGlenWaverley = gw\<rparr>"
    unfolding respond_Inr_iff by auto
  from v(1) have at: "arrivalTime nt = Some mw" by simp
  with a have "\<bar>mw\<bar> \<le> maxTime" using resolved_range by metis
  note TA = trainArrivals_Some[OF at this]
  from TA(2) v(2) have sy: "sy = mw + 180000" by (auto split: if_splits)
  from TA(3) v(3) have gw: "gw = mw + 360000" by (auto split: if_splits)
  from tr hd have "outboundTrains T = Inr (nt # tl (projr (outboundTrains T)))" by simp
  with ds m a at b rs v r sy gw show ?thesis by auto
qed

section \<open>Projection and normalisation\<close>

lemma getBusDepartures_Inr_iff:
  "getBusDepartures ids D = Inr B \<longleftrightarrow>
     (\<exists>ds. departures D = Some ds \<and> set (the (departures B)) \<subseteq> set ds
        \<and> getBusDepartures ids D = Inr B \<and> departures B \<noteq> None \<and> routes B = routes D)"
  by (auto simp: getBusDepartures_def and_then_Inr_iff departures_array_Inr_iff Let_def)

lemma handler_Recommendation_iff:
  "handler clock T D1 D2 D3 D4 = Recommendation r \<longleftrightarrow>
     (\<exists>B1 B2 B3 B4. getBusDepartures [733] D1 = Inr B1 \<and> getBusDepartures [703] D2 = Inr B2
        \<and> getBusDepartures [737] D3 = Inr B3 \<and> getBusDepartures [742, 737] D4 = Inr B4
        \<and> handler_body clock T B1 B2 B3 B4 = Recommendation r)"
  by (auto simp: handler_def and_then_def split: sum.splits)

text \<open>
  C7. The projected arrivals of a next train with a valid date are its date plus 0, 3 and 6
  minutes, as long as these are dates. Whenever a handler answers with a recommendation,
  the next train is the head of the sorted outbound trains, and the projected arrivals
  reported for Mount Waverley, Syndal and Glen Waverley are its resolved instant plus 0, 3
  and 6 minutes; they are non-decreasing in that order.
\<close>

theorem projected_arrivals:
  assumes "handler clock T D1 D2 D3 D4 = Recommendation r
         \<or> handleAPI clock T D1 D2 D3 D4 = Recommendation r"
  shows "(\<exists>trains nt t. outboundTrains T = Inr trains \<and> first trains = Some nt
           \<and> resolved nt = Some t
           \<and> atMountWaverley (nextTrain r) = t + int (TRAIN_TRAVEL_FROM_MT_WAVERLEY mountWaverley) * 60000
           \<and> atSyndal (nextTrain r) = t + int (TRAIN_TRAVEL_FROM_MT_WAVERLEY syndal) * 60000
           \<and> atGlenWaverley (nextTrain r) = t + int (TRAIN_TRAVEL_FROM_MT_WAVERLEY glenWaverley) * 60000
           \<and> atMountWaverley (nextTrain r) \<le> atSyndal (nextTrain r)
           \<and> atSyndal (nextTrain r) \<le> atGlenWaverley (nextTrain r))
       \<and> (\<forall>nt' t' s. arrivalTime nt' = Some t' \<and> \<bar>t'\<bar> \<le> maxTime \<and> t' + 360000 \<le> maxTime \<longrightarrow>
              trainArrivals nt' s = Some (t' + int (TRAIN_TRAVEL_FROM_MT_WAVERLEY s) * 60000))"
proof -
  from assms obtain build where "answer clock T build = Recommendation r"
    unfolding handler_Recommendation_iff handler_body_answer handleAPI_answer by blast
  from answer_next_train[OF this] obtain nt t where
    o: "outboundTrains T = Inr (nt # tl (projr (outboundTrains T)))" and t: "resolved nt = Some t"
    and n: "nextTrain r = \<lparr>atMountWaverley = t, atSyndal = t + 180000, atGlenWaverley = t + 360000\<rparr>"
    by blast
  have "first (nt # tl (projr (outboundTrains T))) = Some nt" by (simp add: first_def)
  with o t n have 1: "\<exists>trains nt t. outboundTrains T = Inr trains \<and> first trains = Some nt
           \<and> resolved nt = Some t
           \<and> atMountWaverley (nextTrain r) = t + int (TRAIN_TRAVEL_FROM_MT_WAVERLEY mountWaverley) * 60000
           \<and> atSyndal (nextTrain r) = t + int (TRAIN_TRAVEL_FROM_MT_WAVERLEY syndal) * 60000
           \<and> atGlenWaverley (nextTrain r) = t + int (TRAIN_TRAVEL_FROM_MT_WAVERLEY glenWaverley) * 60000
           \<and> atMountWaverley (nextTrain r) \<le> atSyndal (nextTrain r)
           \<and> atSyndal (nextTrain r) \<le> atGlenWaverley (nextTrain r)"
    by (intro exI[of _ "nt # tl (projr (outboundTrains T))"] exI[of _ nt] exI[of _ t]) simp
  have 2: "\<forall>nt' t' s. arrivalTime nt' = Some t' \<and> \<bar>t'\<bar> \<le> maxTime \<and> t' + 360000 \<le> maxTime \<longrightarrow>
              trainArrivals nt' s = Some (t' + int (TRAIN_TRAVEL_FROM_MT_WAVERLEY s) * 60000)"
  proof (intro allI impI)
    fix nt' :: train and t' s
    assume a: "arrivalTime nt' = Some t' \<and> \<bar>t'\<bar> \<le> maxTime \<and> t' + 360000 \<le> maxTime"
    then have "arrivalTime nt' = Some t'" "\<bar>t'\<bar> \<le> maxTime" by simp_all
    from trainArrivals_Some[OF this] a
    show "trainArrivals nt' s = Some (t' + int (TRAIN_TRAVEL_FROM_MT_WAVERLEY s) * 60000)"
      by (cases s) simp_all
  qed
  from 1 2 show ?thesis ..
qed

lemmas handler_eval =
  handler_def handler_body_def handleAPI_def handler_options_def handleAPI_options_def
  getBusDepartures_def outboundTrains_def departures_array_def respond_def pushOption_def
  toISOString_def round_minutes_def BUS_TRAVEL_TIMES_def MIN_TRANSFER_TIME_def and_then_def








theorem projected_arrivals_witness:
  "\<exists>r. handler (\<lambda>i. 35000000) example_trains (example_feed ''733'') empty_feed empty_feed
          empty_feed = Recommendation r
      \<and> atMountWaverley (nextTrain r) = 36000000
      \<and> atMountWaverley (nextTrain r) \<le> atSyndal (nextTrain r)
      \<and> atSyndal (nextTrain r) \<le> atGlenWaverley (nextTrain r)"
proof -
  obtain r where r: "handler (\<lambda>i. 35000000) example_trains (example_feed ''733'') empty_feed
      empty_feed empty_feed = Recommendation r" and m: "atMountWaverley (nextTrain r) = 36000000"
    by (simp add: example_defs handler_eval matcher_eval)
  from projected_arrivals[OF disjI1[OF r]]
  have "atMountWaverley (nextTrain r) \<le> atSyndal (nextTrain r)
      \<and> atSyndal (nextTrain r) \<le> atGlenWaverley (nextTrain r)"
    by blast
  with r m show ?thesis by blast
qed

section \<open>The itineraries that the five steps push\<close>

lemma itinerary_of_simps [simp]:
  "station (itinerary_of now st t rn mins b) = st"
  "trainArrival (itinerary_of now st t rn mins b) = t"
  "route (bus (itinerary_of now st t rn mins b)) = rn"
  "departure (bus (itinerary_of now st t rn mins b)) = b"
  "travelTime (bus (itinerary_of now st t rn mins b)) = mins"
  "arrivalAtMonash (itinerary_of now st t rn mins b) = b + int mins * 60000"
  "totalMinutes (itinerary_of now st t rn mins b) = round_minutes (b + int mins * 60000 - now)"
  by (simp_all add: itinerary_of_def)

lemma enumeration_index_itinerary:
  "enumeration_index (itinerary_of n ''Mount Waverley'' t ''733'' m b) = 0"
  "enumeration_index (itinerary_of n ''Syndal'' t ''703'' m b) = 1"
  "enumeration_index (itinerary_of n ''Syndal'' t ''737'' m b) = 2"
  "enumeration_index (itinerary_of n ''Glen Waverley'' t ''742'' m b) = 3"
  "enumeration_index (itinerary_of n ''Glen Waverley'' t ''737'' m b) = 4"
  by (simp_all add: enumeration_index_def enumeration_def)

lemma segment_pushed:
  assumes "segment now st (arr key) rn mins m = Inr s" and "f = Inr m"
    and "\<And>t b. enumeration_index (itinerary_of now st t rn mins b) = i"
  shows "length s \<le> 1 \<and> (\<forall>x\<in>set s. pushed_by arr f i st key rn mins x)"
  using assms unfolding segment_Inr_iff pushed_by_def by auto

lemma five_steps_pushed:
  assumes "five_steps clock arr f1 f2 f3 f4 f5 = Inr opts"
  shows "\<exists>s1 s2 s3 s4 s5. opts = s1 @ s2 @ s3 @ s4 @ s5
     \<and> length s1 \<le> 1 \<and> length s2 \<le> 1 \<and> length s3 \<le> 1 \<and> length s4 \<le> 1 \<and> length s5 \<le> 1
     \<and> (\<forall>x\<in>set s1. pushed_by arr f1 0 ''Mount Waverley'' mountWaverley ''733'' 17 x)
     \<and> (\<forall>x\<in>set s2. pushed_by arr f2 1 ''Syndal'' syndal ''703'' 13 x)
     \<and> (\<forall>x\<in>set s3. pushed_by arr f3 2 ''Syndal'' syndal ''737'' 15 x)
     \<and> (\<forall>x\<in>set s4. pushed_by arr f4 3 ''Glen Waverley'' glenWaverley ''742'' 12 x)
     \<and> (\<forall>x\<in>set s5. pushed_by arr f5 4 ''Glen Waverley'' glenWaverley ''737'' 15 x)"
proof -
  from assms obtain m1 s1 m2 s2 m3 s3 m4 s4 m5 s5 where
    f: "f1 = Inr m1" "f2 = Inr m2" "f3 = Inr m3" "f4 = Inr m4" "f5 = Inr m5"
    and s1: "segment (clock 0) ''Mount Waverley'' (arr mountWaverley) ''733'' 17 m1 = Inr s1"
    and s2: "segment (clock (length s1)) ''Syndal'' (arr syndal) ''703'' 13 m2 = Inr s2"
    and s3: "segment (clock (length s1 + length s2)) ''Syndal'' (arr syndal) ''737'' 15 m3 = Inr s3"
    and s4: "segment (clock (length s1 + length s2 + length s3)) ''Glen Waverley'' (arr glenWaverley) ''742'' 12 m4 = Inr s4"
    and s5: "segment (clock (length s1 + length s2 + length s3 + length s4)) ''Glen Waverley'' (arr glenWaverley) ''737'' 15 m5 = Inr s5"
    and o: "s1 @ s2 @ s3 @ s4 @ s5 = opts"
    unfolding five_steps_Inr_iff by blast
  note p = segment_pushed[where arr=arr and key=mountWaverley, OF s1 f(1) enumeration_index_itinerary(1)]
    segment_pushed[where arr=arr and key=syndal, OF s2 f(2) enumeration_index_itinerary(2)]
    segment_pushed[where arr=arr and key=syndal, OF s3 f(3) enumeration_index_itinerary(3)]
    segment_pushed[where arr=arr and key=glenWaverley, OF s4 f(4) enumeration_index_itinerary(4)]
    segment_pushed[where arr=arr and key=glenWaverley, OF s5 f(5) enumeration_index_itinerary(5)]
  from o[symmetric] p show ?thesis by blast
qed

lemma short_sorted_wrt: "length s \<le> 1 \<Longrightarrow> sorted_wrt R s"
  by (cases s) auto

lemma five_steps_enumerated:
  assumes "five_steps clock arr f1 f2 f3 f4 f5 = Inr opts"
  shows "sorted_wrt (\<lambda>a b. enumeration_index a < enumeration_index b) opts"
proof -
  from five_steps_pushed[OF assms] obtain s1 s2 s3 s4 s5 where o: "opts = s1 @ s2 @ s3 @ s4 @ s5"
    and l: "length s1 \<le> 1" "length s2 \<le> 1" "length s3 \<le> 1" "length s4 \<le> 1" "length s5 \<le> 1"
    and p: "\<forall>x\<in>set s1. pushed_by arr f1 0 ''Mount Waverley'' mountWaverley ''733'' 17 x"
      "\<forall>x\<in>set s2. pushed_by arr f2 1 ''Syndal'' syndal ''703'' 13 x"
      "\<forall>x\<in>set s3. pushed_by arr f3 2 ''Syndal'' syndal ''737'' 15 x"
      "\<forall>x\<in>set s4. pushed_by arr f4 3 ''Glen Waverley'' glenWaverley ''742'' 12 x"
      "\<forall>x\<in>set s5. pushed_by arr f5 4 ''Glen Waverley'' glenWaverley ''737'' 15 x"
    by blast
  have i: "\<forall>x\<in>set s1. enumeration_index x = 0" "\<forall>x\<in>set s2. enumeration_index x = 1"
      "\<forall>x\<in>set s3. enumeration_index x = 2" "\<forall>x\<in>set s4. enumeration_index x = 3"
      "\<forall>x\<in>set s5. enumeration_index x = 4"
    using p by (simp_all add: pushed_by_def)
  show ?thesis
    unfolding o using l i by (auto simp add: sorted_wrt_append short_sorted_wrt)
qed

lemma five_steps_member:
  assumes "five_steps clock arr f1 f2 f3 f4 f5 = Inr opts" and "x \<in> set opts"
  shows "pushed_by arr f1 0 ''Mount Waverley'' mountWaverley ''733'' 17 x
       \<or> pushed_by arr f2 1 ''Syndal'' syndal ''703'' 13 x
       \<or> pushed_by arr f3 2 ''Syndal'' syndal ''737'' 15 x
       \<or> pushed_by arr f4 3 ''Glen Waverley'' glenWaverley ''742'' 12 x
       \<or> pushed_by arr f5 4 ''Glen Waverley'' glenWaverley ''737'' 15 x"
  using five_steps_pushed[OF assms(1)] assms(2) by auto

lemma pushed_by_range: "pushed_by arr f i st key rn mins x \<Longrightarrow> \<bar>arrivalAtMonash x\<bar> \<le> maxTime"
  by (auto simp: pushed_by_def)

lemma five_steps_range:
  assumes "five_steps clock arr f1 f2 f3 f4 f5 = Inr opts"
  shows "\<forall>x\<in>set opts. \<bar>arrivalAtMonash x\<bar> \<le> maxTime"
  using five_steps_member[OF assms] pushed_by_range by blast

text \<open>Stability: sorting by a key keeps a list that is ordered by index ordered within equal keys.\<close>

lemma insort_key_lex:
  fixes k :: "'a \<Rightarrow> int" and idx :: "'a \<Rightarrow> nat"
  assumes "sorted_wrt (\<lambda>a b. k a < k b \<or> (k a = k b \<and> idx a < idx b)) ys"
    and "\<forall>y\<in>set ys. idx x < idx y"
  shows "sorted_wrt (\<lambda>a b. k a < k b \<or> (k a = k b \<and> idx a < idx b)) (insort_key k x ys)"
  using assms
proof (induction ys)
  case Nil
  then show ?case by simp
next
  case (Cons y ys)
  show ?case
  proof (cases "k x \<le> k y")
    case True
    with Cons.prems show ?thesis by (auto simp: less_le)
  next
    case False
    with Cons show ?thesis by (auto simp: set_insort_key)
  qed
qed

lemma sort_key_lex:
  fixes k :: "'a \<Rightarrow> int" and idx :: "'a \<Rightarrow> nat"
  assumes "sorted_wrt (\<lambda>a b. idx a < idx b) xs"
  shows "sorted_wrt (\<lambda>a b. k a < k b \<or> (k a = k b \<and> idx a < idx b)) (sort_key k xs)"
  using assms
proof (induction xs)
  case Nil
  then show ?case by simp
next
  case (Cons x xs)
  then show ?case by (simp add: insort_key_lex)
qed

section \<open>Soundness of the matches\<close>

lemma routed_extend [simp]:
  "raw_departure.truncate (raw_departure.extend d \<lparr>routeNumber = x\<rparr>) = d"
  "routeNumber (raw_departure.extend d \<lparr>routeNumber = x\<rparr>) = x"
  "resolved (raw_departure.extend d \<lparr>routeNumber = x\<rparr>) = resolved d"
  by (simp_all add: raw_departure.defs resolved_def)

lemma resolved_truncate [simp]:
  "resolved (routed_departure.truncate r) = resolved r"
  "resolved (raw_departure.truncate r') = resolved r'"
  by (simp_all add: routed_departure.defs raw_departure.defs resolved_def)

lemma withRouteNumber_member:
  "r \<in> set (withRouteNumber p fb ds) \<Longrightarrow> \<exists>dep\<in>set ds. resolved dep = resolved r"
  by (auto simp: withRouteNumber_def)

lemma match_js_sound: "sound_match (match_js p fb keep) (departure_list p)"
  unfolding sound_match_def
proof (intro allI impI)
  fix t d assume m: "match_js p fb keep (Some t) = Inr (Some d)" and t: "\<bar>t\<bar> \<le> maxTime"
  from m obtain ds r where ds: "departures p = Some ds"
    and r: "findNextBus (filter keep (withRouteNumber p fb ds)) (Some t) [] MIN_TRANSFER_TIME = Some r"
    and d: "d = departureTime r"
    by (auto simp: match_js_def and_then_Inr_iff departures_array_Inr_iff)
  from findNextBus_cases[OF t, of "filter keep (withRouteNumber p fb ds)" "[]" MIN_TRANSFER_TIME] r
  obtain b where tr: "routed_departure.truncate r \<in> set (filter keep (withRouteNumber p fb ds))"
    and b: "departureTime r = Some b" "resolved r = Some b" "t + int MIN_TRANSFER_TIME * 60000 \<le> b"
    by blast
  from tr have "routed_departure.truncate r \<in> set (withRouteNumber p fb ds)" by simp
  from withRouteNumber_member[OF this] obtain dep where "dep \<in> set ds" "resolved dep = resolved r"
    by auto
  with b d ds show "\<exists>b. d = Some b \<and> t + 180000 \<le> b \<and> (\<exists>dep\<in>set (departure_list p). resolved dep = Some b)"
    by (auto simp: departure_list_def MIN_TRANSFER_TIME_def)
qed

lemma match_mjs_sound: "sound_match (match_mjs p n) (departure_list p)"
  unfolding sound_match_def
proof (intro allI impI)
  fix t d assume m: "match_mjs p n (Some t) = Inr (Some d)" and t: "\<bar>t\<bar> \<le> maxTime"
  from m obtain r where r: "findBus p [n] (Some t) (routes p) = Inr (Some r)" and d: "d = time r"
    by (auto simp: match_mjs_def and_then_Inr_iff)
  then obtain ds where ds: "departures p = Some ds"
    by (auto simp: findBus_def Let_def split: option.splits)
  from findBus_cases[OF t ds, of "[n]" "routes p"] r
  obtain b where tr: "raw_departure.truncate r \<in> set ds"
    and b: "time r = Some b" "resolved r = Some b" "t + 3 * 60000 \<le> b"
    by auto
  have "\<exists>dep\<in>set ds. resolved dep = Some b"
    using tr b(2) by (intro bexI[of _ "raw_departure.truncate r"]) simp_all
  with b d ds show "\<exists>b. d = Some b \<and> t + 180000 \<le> b \<and> (\<exists>dep\<in>set (departure_list p). resolved dep = Some b)"
    by (auto simp: departure_list_def)
qed

lemma sound_match_mono: "sound_match f ds \<Longrightarrow> set ds \<subseteq> set ds' \<Longrightarrow> sound_match f ds'"
  unfolding sound_match_def by blast

lemma getBusDepartures_list:
  "getBusDepartures ids D = Inr B \<Longrightarrow> set (departure_list B) \<subseteq> set (departure_list D)"
  by (auto simp: getBusDepartures_def and_then_Inr_iff departures_array_Inr_iff Let_def
        departure_list_def)

text \<open>A recommendation of either handler comes from five sound matches on the fetched feeds.\<close>

lemma recommendation_steps:
  assumes "handler clock T D1 D2 D3 D4 = Recommendation r
         \<or> handleAPI clock T D1 D2 D3 D4 = Recommendation r"
  shows "\<exists>F1 F2 F3 F4 F5.
           answer clock T (\<lambda>arr. five_steps clock arr (F1 (arr mountWaverley)) (F2 (arr syndal))
               (F3 (arr syndal)) (F4 (arr glenWaverley)) (F5 (arr glenWaverley))) = Recommendation r
         \<and> sound_match F1 (departure_list D1) \<and> sound_match F2 (departure_list D2)
         \<and> sound_match F3 (departure_list D3) \<and> sound_match F4 (departure_list D4)
         \<and> sound_match F5 (departure_list D4)"
  using assms
proof
  assume "handler clock T D1 D2 D3 D4 = Recommendation r"
  then obtain B1 B2 B3 B4 where g: "getBusDepartures [733] D1 = Inr B1"
    "getBusDepartures [703] D2 = Inr B2" "getBusDepartures [737] D3 = Inr B3"
    "getBusDepartures [742, 737] D4 = Inr B4"
    and h: "handler_body clock T B1 B2 B3 B4 = Recommendation r"
    unfolding handler_Recommendation_iff by blast
  note s = sound_match_mono[OF match_js_sound getBusDepartures_list]
  from h have "answer clock T (\<lambda>arr. five_steps clock arr
       (match_js B1 ''733'' (\<lambda>b. True) (arr mountWaverley))
       (match_js B2 ''703'' (\<lambda>b. True) (arr syndal))
       (match_js B3 ''737'' (\<lambda>b. True) (arr syndal))
       (match_js B4 ''unknown'' (\<lambda>b. routeNumber b = ''742'') (arr glenWaverley))
       (match_js B4 ''unknown'' (\<lambda>b. routeNumber b = ''737'') (arr glenWaverley))) = Recommendation r"
    by (simp add: handler_body_answer handler_options_steps)
  with s[OF g(1)] s[OF g(2)] s[OF g(3)] s[OF g(4)] show ?thesis by blast
next
  assume "handleAPI clock T D1 D2 D3 D4 = Recommendation r"
  then have "answer clock T (\<lambda>arr. five_steps clock arr
       (match_mjs D1 733 (arr mountWaverley)) (match_mjs D2 703 (arr syndal))
       (match_mjs D3 737 (arr syndal)) (match_mjs D4 742 (arr glenWaverley))
       (match_mjs D4 737 (arr glenWaverley))) = Recommendation r"
    by (simp add: handleAPI_answer handleAPI_options_steps)
  with match_mjs_sound show ?thesis by blast
qed

section \<open>Recommendations\<close>

lemma recommendation_structure:
  assumes "handler clock T D1 D2 D3 D4 = Recommendation r
         \<or> handleAPI clock T D1 D2 D3 D4 = Recommendation r"
  shows "\<exists>F1 F2 F3 F4 F5 nt t opts.
           sound_match F1 (departure_list D1) \<and> sound_match F2 (departure_list D2)
         \<and> sound_match F3 (departure_list D3) \<and> sound_match F4 (departure_list D4)
         \<and> sound_match F5 (departure_list D4)
         \<and> trainArrivals nt mountWaverley = Some t
         \<and> trainArrivals nt syndal = Some (t + 180000)
         \<and> trainArrivals nt glenWaverley = Some (t + 360000)
         \<and> \<bar>t\<bar> \<le> maxTime \<and> \<bar>t + 180000\<bar> \<le> maxTime \<and> \<bar>t + 360000\<bar> \<le> maxTime
         \<and> five_steps clock (trainArrivals nt) (F1 (Some t)) (F2 (Some (t + 180000)))
               (F3 (Some (t + 180000))) (F4 (Some (t + 360000))) (F5 (Some (t + 360000))) = Inr opts
         \<and> nextTrain r = \<lparr>atMountWaverley = t, atSyndal = t + 180000, atGlenWaverley = t + 360000\<rparr>
         \<and> allOptions r = sort_key arrivalAtMonash opts
         \<and> recommendation r = first (allOptions r)
         \<and> timestamp r = clock (length opts)"
proof -
  from recommendation_steps[OF assms] obtain F1 F2 F3 F4 F5 where
    a: "answer clock T (\<lambda>arr. five_steps clock arr (F1 (arr mountWaverley)) (F2 (arr syndal))
               (F3 (arr syndal)) (F4 (arr glenWaverley)) (F5 (arr glenWaverley))) = Recommendation r"
    and s: "sound_match F1 (departure_list D1)" "sound_match F2 (departure_list D2)"
      "sound_match F3 (departure_list D3)" "sound_match F4 (departure_list D4)"
      "sound_match F5 (departure_list D4)"
    by blast
  from answer_next_train[OF a] obtain nt t opts where
    an: "arrivalTime nt = Some t" "resolved nt = Some t"
    and ta: "trainArrivals nt mountWaverley = Some t" "trainArrivals nt syndal = Some (t + 180000)"
      "trainArrivals nt glenWaverley = Some (t + 360000)"
    and f: "five_steps clock (trainArrivals nt) (F1 (trainArrivals nt mountWaverley))
             (F2 (trainArrivals nt syndal)) (F3 (trainArrivals nt syndal))
             (F4 (trainArrivals nt glenWaverley)) (F5 (trainArrivals nt glenWaverley)) = Inr opts"
    and rs: "respond clock (trainArrivals nt) opts = Inr r"
    and n: "nextTrain r = \<lparr>atMountWaverley = t, atSyndal = t + 180000, atGlenWaverley = t + 360000\<rparr>"
    by blast
  have at: "arrivalTime nt = resolved nt" using an by simp
  note rg = trainArrivals_range[OF at ta(1)] trainArrivals_range[OF at ta(2)]
    trainArrivals_range[OF at ta(3)]
  have srt: "Array_sort (\<lambda>a b. date_minus (new_Date (Utc (arrivalAtMonash a)))
                                       (new_Date (Utc (arrivalAtMonash b)))) opts
         = sort_key arrivalAtMonash opts"
    by (rule sort_options[OF five_steps_range[OF f]])
  from rs have r: "allOptions r = sort_key arrivalAtMonash opts"
    "recommendation r = first (sort_key arrivalAtMonash opts)" "timestamp r = clock (length opts)"
    unfolding respond_Inr_iff srt by auto
  from f have f': "five_steps clock (trainArrivals nt) (F1 (Some t)) (F2 (Some (t + 180000)))
               (F3 (Some (t + 180000))) (F4 (Some (t + 360000))) (F5 (Some (t + 360000))) = Inr opts"
    by (simp only: ta)
  from s ta rg f' n r show ?thesis by (intro exI conjI) (assumption | simp)+
qed


lemma pushed_feasible:
  assumes "pushed_by arr (F (Some t)) i st key rn mins x" and "arr key = Some t"
    and "\<bar>t\<bar> \<le> maxTime" and "sound_match F ds"
  shows "station x = st \<and> route (bus x) = rn \<and> trainArrival x = t
       \<and> t + 180000 \<le> departure (bus x)
       \<and> (\<exists>dep\<in>set ds. resolved dep = Some (departure (bus x)))
       \<and> travelTime (bus x) = mins
       \<and> arrivalAtMonash x = departure (bus x) + int mins * 60000"
proof -
  from assms(1,2) obtain now b where f: "F (Some t) = Inr (Some (Some b))"
    and x: "x = itinerary_of now st t rn mins b"
    unfolding pushed_by_def by auto
  from assms(4) f assms(3) have "t + 180000 \<le> b \<and> (\<exists>dep\<in>set ds. resolved dep = Some b)"
    unfolding sound_match_def by blast
  with x show ?thesis by simp
qed

text \<open>
  C4. Every itinerary of a recommendation (the recommended one is the head of the list)
  carries the projected arrival of its station, and its bus departure is the resolved
  instant of a departure fetched for its station and route, at or after that arrival plus
  the minimum transfer time of 3 minutes.
\<close>

theorem itineraries_feasible:
  assumes "handler clock T D1 D2 D3 D4 = Recommendation r
         \<or> handleAPI clock T D1 D2 D3 D4 = Recommendation r"
  shows "\<forall>x\<in>set (allOptions r).
           trainArrival x = station_arrival (nextTrain r) (station x)
         \<and> trainArrival x + int MIN_TRANSFER_TIME * 60000 \<le> departure (bus x)
         \<and> (\<exists>dep\<in>set (feed_for D1 D2 D3 D4 x). resolved dep = Some (departure (bus x)))"
proof
  fix x assume x: "x \<in> set (allOptions r)"
  from recommendation_structure[OF assms] obtain F1 F2 F3 F4 F5 nt t opts where
    s: "sound_match F1 (departure_list D1)" "sound_match F2 (departure_list D2)"
      "sound_match F3 (departure_list D3)" "sound_match F4 (departure_list D4)"
      "sound_match F5 (departure_list D4)"
    and ta: "trainArrivals nt mountWaverley = Some t" "trainArrivals nt syndal = Some (t + 180000)"
      "trainArrivals nt glenWaverley = Some (t + 360000)"
    and rg: "\<bar>t\<bar> \<le> maxTime" "\<bar>t + 180000\<bar> \<le> maxTime" "\<bar>t + 360000\<bar> \<le> maxTime"
    and f: "five_steps clock (trainArrivals nt) (F1 (Some t)) (F2 (Some (t + 180000)))
               (F3 (Some (t + 180000))) (F4 (Some (t + 360000))) (F5 (Some (t + 360000))) = Inr opts"
    and n: "nextTrain r = \<lparr>atMountWaverley = t, atSyndal = t + 180000, atGlenWaverley = t + 360000\<rparr>"
    and a: "allOptions r = sort_key arrivalAtMonash opts"
    by blast
  from x a have "x \<in> set opts" by simp
  from five_steps_member[OF f this]
  consider "pushed_by (trainArrivals nt) (F1 (Some t)) 0 ''Mount Waverley'' mountWaverley ''733'' 17 x"
    | "pushed_by (trainArrivals nt) (F2 (Some (t + 180000))) 1 ''Syndal'' syndal ''703'' 13 x"
    | "pushed_by (trainArrivals nt) (F3 (Some (t + 180000))) 2 ''Syndal'' syndal ''737'' 15 x"
    | "pushed_by (trainArrivals nt) (F4 (Some (t + 360000))) 3 ''Glen Waverley'' glenWaverley ''742'' 12 x"
    | "pushed_by (trainArrivals nt) (F5 (Some (t + 360000))) 4 ''Glen Waverley'' glenWaverley ''737'' 15 x"
    by blast
  then show "trainArrival x = station_arrival (nextTrain r) (station x)
         \<and> trainArrival x + int MIN_TRANSFER_TIME * 60000 \<le> departure (bus x)
         \<and> (\<exists>dep\<in>set (feed_for D1 D2 D3 D4 x). resolved dep = Some (departure (bus x)))"
  proof cases
    case 1
    from pushed_feasible[OF 1 ta(1) rg(1) s(1)] n show ?thesis
      by (simp add: station_arrival_def feed_for_def MIN_TRANSFER_TIME_def)
  next
    case 2
    from pushed_feasible[OF 2 ta(2) rg(2) s(2)] n show ?thesis
      by (simp add: station_arrival_def feed_for_def MIN_TRANSFER_TIME_def)
  next
    case 3
    from pushed_feasible[OF 3 ta(2) rg(2) s(3)] n show ?thesis
      by (simp add: station_arrival_def feed_for_def MIN_TRANSFER_TIME_def)
  next
    case 4
    from pushed_feasible[OF 4 ta(3) rg(3) s(4)] n show ?thesis
      by (simp add: station_arrival_def feed_for_def MIN_TRANSFER_TIME_def)
  next
    case 5
    from pushed_feasible[OF 5 ta(3) rg(3) s(5)] n show ?thesis
      by (simp add: station_arrival_def feed_for_def MIN_TRANSFER_TIME_def)
  qed
qed



lemma pushed_by_pair:
  "pushed_by arr f i st key rn mins x \<Longrightarrow> station x = st \<and> route (bus x) = rn"
  by (auto simp: pushed_by_def)

text \<open>
  C9. In a recommendation of either handler every option is of one of the five pairs of
  station and route, and of two options with the same arrival at Monash the one earlier in
  the list is the one earlier in the enumeration Mount Waverley 733, Syndal 703, Syndal 737,
  Glen Waverley 742, Glen Waverley 737.
\<close>

theorem ties_in_enumeration_order:
  assumes "handler clock T D1 D2 D3 D4 = Recommendation r
         \<or> handleAPI clock T D1 D2 D3 D4 = Recommendation r"
  shows "(\<forall>x\<in>set (allOptions r). (station x, route (bus x)) \<in> set enumeration)
       \<and> (\<forall>i j. i < j \<and> j < length (allOptions r)
              \<and> arrivalAtMonash (allOptions r ! i) = arrivalAtMonash (allOptions r ! j)
              \<longrightarrow> enumeration_index (allOptions r ! i) < enumeration_index (allOptions r ! j))"
proof -
  from recommendation_structure[OF assms] obtain F1 F2 F3 F4 F5 arr opts where
    f: "five_steps clock arr F1 F2 F3 F4 F5 = Inr opts"
    and a: "allOptions r = sort_key arrivalAtMonash opts"
    by blast
  have "\<forall>x\<in>set opts. (station x, route (bus x)) \<in> set enumeration"
  proof
    fix x assume "x \<in> set opts"
    from five_steps_member[OF f this] show "(station x, route (bus x)) \<in> set enumeration"
      by (auto dest!: pushed_by_pair simp: enumeration_def)
  qed
  then have 1: "\<forall>x\<in>set (allOptions r). (station x, route (bus x)) \<in> set enumeration"
    using a by simp
  have "sorted_wrt (\<lambda>a b. arrivalAtMonash a < arrivalAtMonash b
            \<or> (arrivalAtMonash a = arrivalAtMonash b \<and> enumeration_index a < enumeration_index b))
          (allOptions r)"
    unfolding a by (rule sort_key_lex[OF five_steps_enumerated[OF f]])
  then have 2: "\<forall>i j. i < j \<and> j < length (allOptions r)
              \<and> arrivalAtMonash (allOptions r ! i) = arrivalAtMonash (allOptions r ! j)
              \<longrightarrow> enumeration_index (allOptions r ! i) < enumeration_index (allOptions r ! j)"
    unfolding sorted_wrt_iff_nth_less by (metis less_irrefl)
  from 1 2 show ?thesis by blast
qed



theorem itineraries_feasible_witness:
  "\<exists>r x. handler (\<lambda>i. 35000000) example_trains (example_feed ''733'') empty_feed
          (example_feed ''737'') (example_feed ''737'') = Recommendation r
      \<and> recommendation r = Some x \<and> x \<in> set (allOptions r)
      \<and> trainArrival x = 36000000
      \<and> trainArrival x + int MIN_TRANSFER_TIME * 60000 \<le> departure (bus x)"
proof -
  obtain r x where r: "handler (\<lambda>i. 35000000) example_trains (example_feed ''733'') empty_feed
          (example_feed ''737'') (example_feed ''737'') = Recommendation r"
    and x: "recommendation r = Some x" "x \<in> set (allOptions r)" "trainArrival x = 36000000"
    by (simp add: example_defs handler_eval matcher_eval)
  from itineraries_feasible[OF disjI1[OF r]] x(2)
  have "trainArrival x + int MIN_TRANSFER_TIME * 60000 \<le> departure (bus x)" by blast
  with r x show ?thesis by blast
qed

theorem ties_in_enumeration_order_witness:
  "\<exists>r. handler (\<lambda>i. 35000000) example_trains (example_feed ''733'') empty_feed
          (example_feed ''737'') (example_feed ''737'') = Recommendation r
      \<and> (1::nat) < 2 \<and> 2 < length (allOptions r)
      \<and> arrivalAtMonash (allOptions r ! 1) = arrivalAtMonash (allOptions r ! 2)
      \<and> station (allOptions r ! 1) = ''Syndal'' \<and> station (allOptions r ! 2) = ''Glen Waverley''
      \<and> enumeration_index (allOptions r ! 1) < enumeration_index (allOptions r ! 2)"
proof -
  obtain r where r: "handler (\<lambda>i. 35000000) example_trains (example_feed ''733'') empty_feed
          (example_feed ''737'') (example_feed ''737'') = Recommendation r"
    and l: "2 < length (allOptions r)"
    and t: "arrivalAtMonash (allOptions r ! 1) = arrivalAtMonash (allOptions r ! 2)"
    and s: "station (allOptions r ! 1) = ''Syndal''" "station (allOptions r ! 2) = ''Glen Waverley''"
    by (simp add: example_defs handler_eval matcher_eval)
  have o: "(1::nat) < 2" by simp
  from ties_in_enumeration_order[OF disjI1[OF r]] o l t
  have "enumeration_index (allOptions r ! 1) < enumeration_index (allOptions r ! 2)" by blast
  with r o l t s show ?thesis by blast
qed

section \<open>The wall clock\<close>












section \<open>Records without a valid date\<close>

lemma filter_map_filter:
  assumes "\<And>x. P (f x) \<Longrightarrow> V x"
  shows "filter P (map f (filter V xs)) = filter P (map f xs)"
  using assms by (induction xs) auto

lemma findNextBus_drop:
  "findNextBus (filter (\<lambda>d. resolved d \<noteq> None) xs) ta rs m = findNextBus xs ta rs m"
proof -
  have "\<And>th. filter (\<lambda>c. date_ge (departureTime c) th)
          (map (\<lambda>dep. routed_departure.extend dep \<lparr>departureTime = resolved dep\<rparr>)
             (filter (\<lambda>d. resolved d \<noteq> None) xs))
      = filter (\<lambda>c. date_ge (departureTime c) th)
          (map (\<lambda>dep. routed_departure.extend dep \<lparr>departureTime = resolved dep\<rparr>) xs)"
    by (rule filter_map_filter) (auto simp: date_ge_Some routed_departure.defs)
  then show ?thesis by (simp add: findNextBus_def Let_def resolved_def[symmetric])
qed

lemma withRouteNumber_filter:
  "withRouteNumber p fb (filter (\<lambda>d. resolved d \<noteq> None) ds)
     = filter (\<lambda>d. resolved d \<noteq> None) (withRouteNumber p fb ds)"
  by (simp add: withRouteNumber_def filter_map comp_def)

lemma withRouteNumber_routes: "routes p = routes q \<Longrightarrow> withRouteNumber p = withRouteNumber q"
  by (simp add: withRouteNumber_def fun_eq_iff)

lemma drop_malformed_simps [simp]:
  "routes (drop_malformed p) = routes p"
  "departures (drop_malformed p) = map_option (filter (\<lambda>d. resolved d \<noteq> None)) (departures p)"
  by (simp_all add: drop_malformed_def)

lemma match_js_drop: "match_js (drop_malformed p) fb keep ta = match_js p fb keep ta"
proof (cases "departures p")
  case None
  then show ?thesis by (simp add: match_js_def departures_array_def)
next
  case (Some ds)
  have w: "withRouteNumber (drop_malformed p) = withRouteNumber p"
    by (rule withRouteNumber_routes) simp
  have "filter keep (withRouteNumber p fb (filter (\<lambda>d. resolved d \<noteq> None) ds))
      = filter (\<lambda>d. resolved d \<noteq> None) (filter keep (withRouteNumber p fb ds))"
    unfolding withRouteNumber_filter by (simp add: conj_commute)
  with Some w show ?thesis
    by (simp add: match_js_def departures_array_def findNextBus_drop
          del: not_None_eq filter_filter)
qed

lemma findBus_drop:
  "findBus (drop_malformed p) rs ta rd = findBus p rs ta rd"
proof (cases "departures p")
  case None
  then show ?thesis by (simp add: findBus_def)
next
  case (Some ds)
  let ?on = "\<lambda>d::raw_departure. list_ex (\<lambda>r. route_number_of rd (route_id d) = Some (String_nat r)) rs"
  have c: "filter ?on (filter (\<lambda>d. resolved d \<noteq> None) ds)
         = filter (\<lambda>d. resolved d \<noteq> None) (filter ?on ds)"
    by (simp add: conj_commute)
  have "\<And>th. filter (\<lambda>c. date_ge (time c) th)
          (map (\<lambda>d. raw_departure.extend d \<lparr>time = resolved d, route = route_number_of rd (route_id d)\<rparr>)
             (filter (\<lambda>d. resolved d \<noteq> None) (filter ?on ds)))
      = filter (\<lambda>c. date_ge (time c) th)
          (map (\<lambda>d. raw_departure.extend d \<lparr>time = resolved d, route = route_number_of rd (route_id d)\<rparr>)
             (filter ?on ds))"
    by (rule filter_map_filter) (auto simp: date_ge_Some raw_departure.defs)
  with Some show ?thesis
    by (simp add: findBus_def Let_def resolved_def[symmetric] c del: not_None_eq filter_filter)
qed

lemma match_mjs_drop: "match_mjs (drop_malformed p) n ta = match_mjs p n ta"
  by (simp add: match_mjs_def findBus_drop)

lemma getBusDepartures_drop:
  "getBusDepartures ids (drop_malformed D) =
     and_then (getBusDepartures ids D) (\<lambda>B. Inr (drop_malformed B))"
  by (cases "departures D")
     (simp_all add: getBusDepartures_def departures_array_def drop_malformed_def Let_def
        conj_commute)

lemma handler_body_drop:
  "handler_body clock T (drop_malformed B1) (drop_malformed B2) (drop_malformed B3)
     (drop_malformed B4) = handler_body clock T B1 B2 B3 B4"
  by (simp add: handler_body_answer handler_options_steps match_js_drop)

text \<open>
  C5, as the code has it. A bus departure whose resolved date is invalid is never a
  candidate: both handlers answer on the four bus payloads as they answer on the same
  payloads without these departures.
\<close>

theorem malformed_bus_records_ignored:
  "handler clock T (drop_malformed D1) (drop_malformed D2) (drop_malformed D3) (drop_malformed D4)
     = handler clock T D1 D2 D3 D4
   \<and> handleAPI clock T (drop_malformed D1) (drop_malformed D2) (drop_malformed D3)
       (drop_malformed D4) = handleAPI clock T D1 D2 D3 D4"
proof -
  have "handler clock T (drop_malformed D1) (drop_malformed D2) (drop_malformed D3) (drop_malformed D4)
     = handler clock T D1 D2 D3 D4"
    unfolding handler_def getBusDepartures_drop and_then_assoc
    by (simp add: handler_body_drop)
  moreover have "handleAPI clock T (drop_malformed D1) (drop_malformed D2) (drop_malformed D3)
       (drop_malformed D4) = handleAPI clock T D1 D2 D3 D4"
    by (simp add: handleAPI_answer handleAPI_options_steps match_mjs_drop)
  ultimately show ?thesis ..
qed

theorem malformed_train_record_counterexample:
  "handler (\<lambda>i. 35000000) malformed_trains (example_feed ''733'') empty_feed empty_feed empty_feed
     = Failed RangeError
   \<and> handleAPI (\<lambda>i. 35000000) malformed_trains (example_feed ''733'') empty_feed empty_feed
       empty_feed = Failed RangeError
   \<and> (\<exists>r. handler (\<lambda>i. 35000000) (drop_malformed malformed_trains) (example_feed ''733'')
            empty_feed empty_feed empty_feed = Recommendation r)"
  by (simp add: malformed_trains_def drop_malformed_def resolved_def example_defs handler_eval matcher_eval)

theorem malformed_bus_records_ignored_witness:
  "\<exists>r. handler (\<lambda>i. 35000000) example_trains malformed_buses empty_feed empty_feed empty_feed
         = Recommendation r
      \<and> handler (\<lambda>i. 35000000) example_trains (drop_malformed malformed_buses)
           (drop_malformed empty_feed) (drop_malformed empty_feed) (drop_malformed empty_feed)
         = Recommendation r
      \<and> departures (drop_malformed malformed_buses) = Some example_buses"
proof -
  obtain r where r: "handler (\<lambda>i. 35000000) example_trains malformed_buses empty_feed empty_feed
      empty_feed = Recommendation r"
    by (simp add: malformed_buses_def example_defs handler_eval matcher_eval)
  have d: "departures (drop_malformed malformed_buses) = Some example_buses"
    by (simp add: malformed_buses_def drop_malformed_def resolved_def example_defs js_or_def
          TimeClip_def)
  from malformed_bus_records_ignored[of "\<lambda>i. 35000000" example_trains malformed_buses
      empty_feed empty_feed empty_feed] r d
  show ?thesis by auto
qed

lemma outbound_sorted:
  assumes ds: "departures T = Some ds"
    and v: "\<forall>d\<in>set ds. direction_id d = Some 6 \<longrightarrow> resolved d \<noteq> None"
    and f: "outboundTrains T = Inr trains" "first trains = Some nt"
  shows "\<exists>t. arrivalTime nt = Some t
           \<and> (\<exists>d\<in>set ds. direction_id d = Some 6 \<and> resolved d = Some t)
           \<and> (\<forall>d\<in>set ds. direction_id d = Some 6 \<longrightarrow> (\<forall>t'. resolved d = Some t' \<longrightarrow> t \<le> t'))"
proof -
  let ?ext = "\<lambda>dep::raw_departure. raw_departure.extend dep \<lparr>arrivalTime = resolved dep\<rparr>"
  let ?xs = "map ?ext (filter (\<lambda>dep. direction_id dep = Some 6) ds)"
  let ?k = "\<lambda>x::train. the (arrivalTime x)"
  from f(1) ds have tr: "trains = Array_sort (\<lambda>a b. date_minus (arrivalTime a) (arrivalTime b)) ?xs"
    unfolding outboundTrains_Inr_iff by simp
  have valid: "\<forall>x\<in>set ?xs. arrivalTime x = Some (?k x)" using v by auto
  have "\<forall>x\<in>set ?xs. \<forall>y\<in>set ?xs. date_minus (arrivalTime x) (arrivalTime y) = Some (?k x - ?k y)"
  proof (intro ballI)
    fix x y assume "x \<in> set ?xs" "y \<in> set ?xs"
    with valid have "arrivalTime x = Some (?k x)" "arrivalTime y = Some (?k y)" by blast+
    then show "date_minus (arrivalTime x) (arrivalTime y) = Some (?k x - ?k y)"
      unfolding date_minus_def by (metis option.simps(5) case_prod_conv)
  qed
  then have "Array_sort (\<lambda>a b. date_minus (arrivalTime a) (arrivalTime b)) ?xs = sort_key ?k ?xs"
    by (rule Array_sort_sort_key)
  with tr f(2) have "first (sort_key ?k ?xs) = Some nt" by simp
  from first_sort_key_Some[OF this] have nt: "nt \<in> set ?xs" and mn: "\<forall>y\<in>set ?xs. ?k nt \<le> ?k y"
    by blast+
  from nt obtain d0 where d0: "d0 \<in> set ds" "direction_id d0 = Some 6" "nt = ?ext d0" by auto
  from valid nt have a: "arrivalTime nt = Some (?k nt)" by blast
  with d0 have r0: "resolved d0 = Some (?k nt)" by simp
  have "\<forall>d\<in>set ds. direction_id d = Some 6 \<longrightarrow> (\<forall>t'. resolved d = Some t' \<longrightarrow> ?k nt \<le> t')"
  proof (intro ballI impI allI)
    fix d t' assume d: "d \<in> set ds" "direction_id d = Some 6" "resolved d = Some t'"
    from d(1,2) have "?ext d \<in> set ?xs"
      unfolding set_map by (intro image_eqI[where x=d]) simp_all
    with mn have "?k nt \<le> ?k (?ext d)" by blast
    with d(3) show "?k nt \<le> t'" by simp
  qed
  with a d0(1,2) r0 show ?thesis by blast
qed

lemma answer_NoTrains:
  assumes "departures T = Some ds" and "\<forall>d\<in>set ds. direction_id d \<noteq> Some 6"
  shows "answer clock T build = NoTrains (clock 0)"
proof -
  from assms(2) have "filter (\<lambda>dep. direction_id dep = Some 6) ds = []"
    by (simp add: filter_empty_conv)
  with assms(1) have "outboundTrains T = Inr []"
    by (simp add: outboundTrains_def departures_array_def Array_sort_def)
  then show ?thesis by (simp add: answer_def first_def)
qed

lemma handler_present:
  assumes "departures D1 \<noteq> None" "departures D2 \<noteq> None" "departures D3 \<noteq> None"
    "departures D4 \<noteq> None"
  shows "\<exists>B1 B2 B3 B4. handler clock T D1 D2 D3 D4 = handler_body clock T B1 B2 B3 B4"
proof -
  have g: "\<And>ids D. departures D \<noteq> None \<Longrightarrow> \<exists>B. getBusDepartures ids D = Inr B"
    by (auto simp: getBusDepartures_def departures_array_def Let_def)
  from g[OF assms(1)] g[OF assms(2)] g[OF assms(3)] g[OF assms(4)]
  obtain B1 B2 B3 B4 where "getBusDepartures [733] D1 = Inr B1" "getBusDepartures [703] D2 = Inr B2"
    "getBusDepartures [737] D3 = Inr B3" "getBusDepartures [742, 737] D4 = Inr B4"
    by blast
  then have "handler clock T D1 D2 D3 D4 = handler_body clock T B1 B2 B3 B4"
    by (simp add: handler_def)
  then show ?thesis by blast
qed

text \<open>
  C10, as the code has it. On a train payload with a departures list: when no departure has
  direction_id 6, both handlers answer "no upcoming trains" whatever the bus payloads are
  (for \<open>handler\<close>, once the four bus payloads have passed the route filter of
  \<open>getBusDepartures\<close>, which needs their departures lists); when every departure with
  direction_id 6 has a valid resolved date, the next train of any recommendation is such a
  departure, of least resolved instant.
\<close>

theorem next_train_earliest:
  assumes "departures T = Some ds"
  shows "((\<forall>d\<in>set ds. direction_id d \<noteq> Some 6) \<longrightarrow>
            handleAPI clock T D1 D2 D3 D4 = NoTrains (clock 0)
          \<and> handler_body clock T D1 D2 D3 D4 = NoTrains (clock 0)
          \<and> (departures D1 \<noteq> None \<and> departures D2 \<noteq> None \<and> departures D3 \<noteq> None
               \<and> departures D4 \<noteq> None \<longrightarrow> handler clock T D1 D2 D3 D4 = NoTrains (clock 0)))
       \<and> ((\<forall>d\<in>set ds. direction_id d = Some 6 \<longrightarrow> resolved d \<noteq> None) \<longrightarrow>
            (\<forall>r. handler clock T D1 D2 D3 D4 = Recommendation r
                  \<or> handleAPI clock T D1 D2 D3 D4 = Recommendation r \<longrightarrow>
               (\<exists>d\<in>set ds. direction_id d = Some 6
                    \<and> resolved d = Some (atMountWaverley (nextTrain r)))
             \<and> (\<forall>d\<in>set ds. direction_id d = Some 6 \<longrightarrow>
                    (\<forall>t. resolved d = Some t \<longrightarrow> atMountWaverley (nextTrain r) \<le> t))))"
proof (intro conjI impI allI)
  assume n: "\<forall>d\<in>set ds. direction_id d \<noteq> Some 6"
  note a = answer_NoTrains[OF assms n]
  show "handleAPI clock T D1 D2 D3 D4 = NoTrains (clock 0)"
    unfolding handleAPI_answer by (rule a)
  show "handler_body clock T D1 D2 D3 D4 = NoTrains (clock 0)"
    unfolding handler_body_answer by (rule a)
  assume "departures D1 \<noteq> None \<and> departures D2 \<noteq> None \<and> departures D3 \<noteq> None
               \<and> departures D4 \<noteq> None"
  then obtain B1 B2 B3 B4 where "handler clock T D1 D2 D3 D4 = handler_body clock T B1 B2 B3 B4"
    using handler_present by blast
  then show "handler clock T D1 D2 D3 D4 = NoTrains (clock 0)"
    unfolding handler_body_answer by (simp add: a)
next
  fix r
  assume v: "\<forall>d\<in>set ds. direction_id d = Some 6 \<longrightarrow> resolved d \<noteq> None"
    and r: "handler clock T D1 D2 D3 D4 = Recommendation r
                  \<or> handleAPI clock T D1 D2 D3 D4 = Recommendation r"
  from r obtain build where "answer clock T build = Recommendation r"
    unfolding handler_Recommendation_iff handler_body_answer handleAPI_answer by blast
  from answer_next_train[OF this] obtain nt t where
    o: "outboundTrains T = Inr (nt # tl (projr (outboundTrains T)))" and t: "arrivalTime nt = Some t"
    and n: "nextTrain r = \<lparr>atMountWaverley = t, atSyndal = t + 180000, atGlenWaverley = t + 360000\<rparr>"
    by blast
  have "first (nt # tl (projr (outboundTrains T))) = Some nt" by (simp add: first_def)
  from outbound_sorted[OF assms v o this] t n
  have "(\<exists>d\<in>set ds. direction_id d = Some 6
                    \<and> resolved d = Some (atMountWaverley (nextTrain r)))
             \<and> (\<forall>d\<in>set ds. direction_id d = Some 6 \<longrightarrow>
                    (\<forall>t. resolved d = Some t \<longrightarrow> atMountWaverley (nextTrain r) \<le> t))"
    by simp
  then show "\<exists>d\<in>set ds. direction_id d = Some 6
                    \<and> resolved d = Some (atMountWaverley (nextTrain r))"
    and "\<forall>d\<in>set ds. direction_id d = Some 6 \<longrightarrow>
                    (\<forall>t. resolved d = Some t \<longrightarrow> atMountWaverley (nextTrain r) \<le> t)"
    by blast+
qed

theorem next_train_counterexample:
  "\<exists>bad good. outboundTrains malformed_trains = Inr [bad, good] \<and> first [bad, good] = Some bad
      \<and> direction_id bad = Some 6 \<and> resolved bad = None
      \<and> direction_id good = Some 6 \<and> resolved good = Some 36000000"
  by (simp add: malformed_trains_def example_defs outboundTrains_def departures_array_def
        Array_sort_def first_def date_minus_def resolved_def js_or_def TimeClip_def
        raw_departure.defs)

theorem next_train_earliest_witness:
  "departures example_trains
     = Some [example_departure 2 (Some 1) 35000000, example_departure 2 (Some 6) 36000000]
   \<and> (\<exists>r. handler (\<lambda>i. 35000000) example_trains (example_feed ''733'') empty_feed empty_feed
            empty_feed = Recommendation r \<and> atMountWaverley (nextTrain r) \<le> 36000000)
   \<and> departures inbound_trains = Some [example_departure 2 (Some 1) 35000000]
   \<and> handleAPI (\<lambda>i. 35000000) inbound_trains \<lparr>departures = None, routes = None\<rparr> empty_feed
         empty_feed empty_feed = NoTrains 35000000"
proof -
  have d: "departures example_trains
     = Some [example_departure 2 (Some 1) 35000000, example_departure 2 (Some 6) 36000000]"
    by (simp add: example_trains_def)
  have v: "\<forall>d\<in>set [example_departure 2 (Some 1) 35000000, example_departure 2 (Some 6) 36000000].
             direction_id d = Some 6 \<longrightarrow> resolved d \<noteq> None"
    by (simp add: example_departure_def resolved_def js_or_def TimeClip_def)
  obtain r where r: "handler (\<lambda>i. 35000000) example_trains (example_feed ''733'') empty_feed
      empty_feed empty_feed = Recommendation r"
    by (simp add: example_defs handler_eval matcher_eval)
  have m: "example_departure 2 (Some 6) 36000000
             \<in> set [example_departure 2 (Some 1) 35000000, example_departure 2 (Some 6) 36000000]"
    "direction_id (example_departure 2 (Some 6) 36000000) = Some 6"
    "resolved (example_departure 2 (Some 6) 36000000) = Some 36000000"
    by (simp_all add: example_departure_def resolved_def js_or_def TimeClip_def)
  from next_train_earliest[OF d, of "\<lambda>i. 35000000" "example_feed ''733''" empty_feed empty_feed
      empty_feed] v r m
  have a: "atMountWaverley (nextTrain r) \<le> 36000000" by blast
  have d': "departures inbound_trains = Some [example_departure 2 (Some 1) 35000000]"
    by (simp add: inbound_trains_def)
  have n: "\<forall>d\<in>set [example_departure 2 (Some 1) 35000000]. direction_id d \<noteq> Some 6"
    by (simp add: example_departure_def)
  from next_train_earliest[OF d', of "\<lambda>i. 35000000" "\<lparr>departures = None, routes = None\<rparr>"
      empty_feed empty_feed empty_feed] n
  have b: "handleAPI (\<lambda>i. 35000000) inbound_trains \<lparr>departures = None, routes = None\<rparr> empty_feed
         empty_feed empty_feed = NoTrains 35000000"
    by blast
  from d r a d' b show ?thesis by blast
qed

section \<open>Empty and absent bus feeds\<close>
















end
